theory Spec2Isabelle
  imports Main "HOL-Library.AList"
begin

section \<open>Strings as the bot uses them\<close>

text \<open>
  Python strings are modelled as \<open>string\<close>: a \<open>char\<close> is a code point below 256 (ASCII
  and the Latin-1 supplement).  On these \<open>str.lower()\<close> folds the letters A-Z and the
  capital letters U+00C0 to U+00DE (all but the multiplication sign U+00D7) and changes
  nothing else, and \<open>str.strip()\<close> strips the white space of \<open>str.isspace\<close>: U+0009 to
  U+000D, U+001C to U+0020, U+0085 and U+00A0.  Text in other scripts is outside the
  model.  The emoji of the captions, which lie above U+00FF, are spelled as their UTF-8
  bytes; none of these bytes is a capital letter or white space here, so that \<open>lower\<close>
  and \<open>strip\<close> leave them alone, as Python leaves the emoji alone.
\<close>

definition upper_letters :: string where
  "upper_letters =
     ''ABCDEFGHIJKLMNOPQRSTUVWXYZ'' @
     [CHR 0xC0, CHR 0xC1, CHR 0xC2, CHR 0xC3, CHR 0xC4, CHR 0xC5, CHR 0xC6, CHR 0xC7,
      CHR 0xC8, CHR 0xC9, CHR 0xCA, CHR 0xCB, CHR 0xCC, CHR 0xCD, CHR 0xCE, CHR 0xCF,
      CHR 0xD0, CHR 0xD1, CHR 0xD2, CHR 0xD3, CHR 0xD4, CHR 0xD5, CHR 0xD6,
      CHR 0xD8, CHR 0xD9, CHR 0xDA, CHR 0xDB, CHR 0xDC, CHR 0xDD, CHR 0xDE]"

definition lower_letters :: string where
  "lower_letters =
     ''abcdefghijklmnopqrstuvwxyz'' @
     [CHR 0xE0, CHR 0xE1, CHR 0xE2, CHR 0xE3, CHR 0xE4, CHR 0xE5, CHR 0xE6, CHR 0xE7,
      CHR 0xE8, CHR 0xE9, CHR 0xEA, CHR 0xEB, CHR 0xEC, CHR 0xED, CHR 0xEE, CHR 0xEF,
      CHR 0xF0, CHR 0xF1, CHR 0xF2, CHR 0xF3, CHR 0xF4, CHR 0xF5, CHR 0xF6,
      CHR 0xF8, CHR 0xF9, CHR 0xFA, CHR 0xFB, CHR 0xFC, CHR 0xFD, CHR 0xFE]"

definition lower_char :: "char \<Rightarrow> char" where
  "lower_char c =
     (case map_of (zip upper_letters lower_letters) c of
        None \<Rightarrow> c
      | Some d \<Rightarrow> d)"

definition lower :: "string \<Rightarrow> string" where
  "lower s = map lower_char s"

definition is_space :: "char \<Rightarrow> bool" where
  "is_space c =
     (c \<in> set [CHR 0x09, CHR 0x0A, CHR 0x0B, CHR 0x0C, CHR 0x0D,
                CHR 0x1C, CHR 0x1D, CHR 0x1E, CHR 0x1F, CHR 0x20, CHR 0x85, CHR 0xA0])"

definition strip :: "string \<Rightarrow> string" where
  "strip s = rev (dropWhile is_space (rev (dropWhile is_space s)))"

definition startswith :: "string \<Rightarrow> string \<Rightarrow> bool" where
  "startswith s p = (take (length p) s = p)"

text \<open>
  \<open>s.split(sep)\<close> for a non-empty separator: the parts between the leftmost,
  non-overlapping occurrences of \<open>sep\<close>; the result is never empty.  \<open>split_from\<close> carries
  the current part reversed.  (Python raises on an empty separator; the bot never passes
  one, and the model then returns the whole string as one part.)
\<close>

function split_from :: "string \<Rightarrow> string \<Rightarrow> string \<Rightarrow> string list" where
  "split_from sep acc [] = [rev acc]"
| "split_from sep acc (c # cs) =
     (if sep \<noteq> [] \<and> startswith (c # cs) sep
      then rev acc # split_from sep [] (drop (length sep) (c # cs))
      else split_from sep (c # acc) cs)"
  by pat_completeness auto
termination
  by (relation "measure (\<lambda>(sep, acc, s). length s)") (auto simp: neq_Nil_conv)

definition py_split :: "string \<Rightarrow> string \<Rightarrow> string list" where
  "py_split s sep = split_from sep [] s"

text \<open>
  \<open>s.split(sep, maxsplit)\<close> for a one-character separator: at most \<open>maxsplit\<close> cuts, the
  rest of the string is the last part.
\<close>

fun split_max :: "char \<Rightarrow> nat \<Rightarrow> string \<Rightarrow> string \<Rightarrow> string list" where
  "split_max sep n acc [] = [rev acc]"
| "split_max sep 0 acc (c # cs) = [rev acc @ c # cs]"
| "split_max sep (Suc n) acc (c # cs) =
     (if c = sep then rev acc # split_max sep n [] cs
      else split_max sep (Suc n) (c # acc) cs)"

definition py_split_max :: "string \<Rightarrow> char \<Rightarrow> nat \<Rightarrow> string list" where
  "py_split_max s sep n = split_max sep n [] s"

text \<open>The sentinel test \<open>text.lower() == 'skip'\<close> of the optional fields.\<close>

definition is_skip :: "string \<Rightarrow> bool" where
  "is_skip text = (lower text = ''skip'')"

section \<open>Data model\<close>

text \<open>
  A profile dictionary (\<open>candidate_data\<close>, a draft item, an appended sub-item) maps keys
  to a Python value that is either \<open>None\<close> or a string; it is an association list in
  insertion order.  \<open>map_of d k = None\<close>: the key is absent; \<open>Some None\<close>: the key holds
  Python's \<open>None\<close>; \<open>Some (Some s)\<close>: it holds the string \<open>s\<close>.
\<close>

type_synonym pydict = "(string \<times> string option) list"

definition setitem :: "string \<Rightarrow> string option \<Rightarrow> pydict \<Rightarrow> pydict" where
  "setitem k v d = AList.update k v d"

text \<open>
  The per-user session dictionary of \<open>CVBot.user_sessions\<close>.  The keys that
  \<open>get_user_session\<close> always creates are plain fields; the keys that handlers add later
  (\<open>chat_id\<close>, \<open>order_id\<close>, \<open>notified\<close>, ...) are optional fields, \<open>None\<close> when the key is
  not in the dictionary.
\<close>

record session =
  language :: string
  candidate_data :: pydict
  careerObjectives :: "pydict list"
  skills :: "pydict list"
  education :: "pydict list"
  languages :: "pydict list"
  workExperiences :: "pydict list"
  certificationsAwards :: "pydict list"
  otherActivities :: "pydict list"
  projects :: "pydict list"
  current_field :: "string option"
  current_work_experience :: pydict
  current_education :: pydict
  current_skill :: pydict
  current_certification :: pydict
  current_project :: pydict
  current_language :: pydict
  chat_id :: "int option"
  menu_message_id :: "int option"
  summary_message_id :: "int option"
  saving_message_id :: "int option"
  order_id :: "string option"
  notified :: "bool option"
  from_main_flow :: "bool option"

text \<open>The dictionary literal of \<open>get_user_session\<close> (bot.py, lines 345-363).\<close>

definition new_session :: session where
  "new_session =
     \<lparr> language = ''en'',
       candidate_data = [(''availability'', Some ''To be specified'')],
       careerObjectives = [], skills = [], education = [], languages = [],
       workExperiences = [], certificationsAwards = [], otherActivities = [],
       projects = [],
       current_field = None,
       current_work_experience = [], current_education = [], current_skill = [],
       current_certification = [], current_project = [], current_language = [],
       chat_id = None, menu_message_id = None, summary_message_id = None,
       saving_message_id = None, order_id = None, notified = None,
       from_main_flow = None \<rparr>"

type_synonym sessions = "(string \<times> session) list"

text \<open>
  \<open>get_user_session\<close>: the table after the call and the session it returns (the table's
  own entry: every handler mutates it in place, which the callers below model by writing
  the changed session back under the same key).
\<close>

definition get_user_session :: "string \<Rightarrow> sessions \<Rightarrow> sessions \<times> session" where
  "get_user_session user_id tbl =
     (case map_of tbl user_id of
        None \<Rightarrow> (AList.update user_id new_session tbl, new_session)
      | Some s \<Rightarrow> (tbl, s))"

text \<open>\<open>session.get('notified', False)\<close>.\<close>

definition is_notified :: "session \<Rightarrow> bool" where
  "is_notified s = (case notified s of None \<Rightarrow> False | Some b \<Rightarrow> b)"

section \<open>Username resolution\<close>

text \<open>
  The Telegram client is an external collaborator: each of its calls either returns or
  raises.  The three lookups \<open>resolve_username_to_id\<close> makes are the parameters of the
  model; \<open>api_call\<close> records which of them were invoked.
\<close>

datatype 'a api = Fails | Gives 'a

record tg_chat =
  chat_ident :: int
  chat_kind :: string

record tg_user =
  user_ident :: int
  user_name :: "string option"

record telegram =
  get_chat :: "string \<Rightarrow> tg_chat api"
  get_chat_administrators :: "tg_user list api"
  get_chat_member :: "string \<Rightarrow> tg_user option api"

datatype api_call = GetChat string | GetChatAdministrators | GetChatMember string

datatype error = ValueError | InvalidTransition

type_synonym cache = "(string \<times> int) list"

definition clean_username :: "string \<Rightarrow> string" where
  "clean_username username = lower (filter (\<lambda>c. c \<noteq> CHR ''@'') username)"

definition via_get_chat :: "telegram \<Rightarrow> string \<Rightarrow> int option" where
  "via_get_chat tg full =
     (case get_chat tg full of
        Fails \<Rightarrow> None
      | Gives c \<Rightarrow> if chat_kind c = ''private'' then Some (chat_ident c) else None)"

fun find_admin :: "string \<Rightarrow> tg_user list \<Rightarrow> int option" where
  "find_admin clean [] = None"
| "find_admin clean (a # rest) =
     (case user_name a of
        None \<Rightarrow> find_admin clean rest
      | Some n \<Rightarrow>
          if n \<noteq> [] \<and> lower n = clean then Some (user_ident a)
          else find_admin clean rest)"

definition via_administrators :: "telegram \<Rightarrow> string \<Rightarrow> int option" where
  "via_administrators tg clean =
     (case get_chat_administrators tg of
        Fails \<Rightarrow> None
      | Gives admins \<Rightarrow> find_admin clean admins)"

definition via_chat_member :: "telegram \<Rightarrow> string \<Rightarrow> int option" where
  "via_chat_member tg full =
     (case get_chat_member tg full of
        Fails \<Rightarrow> None
      | Gives None \<Rightarrow> None
      | Gives (Some u) \<Rightarrow> Some (user_ident u))"

text \<open>
  \<open>resolve_username_to_id\<close> (bot.py, lines 290-340): the cache after the call, the
  external calls made, in order, and the identity or the \<open>ValueError\<close> raised.
\<close>

definition resolve_username_to_id ::
  "telegram \<Rightarrow> string \<Rightarrow> cache \<Rightarrow> cache \<times> api_call list \<times> (error + int)" where
  "resolve_username_to_id tg username user_cache =
     (let clean = clean_username username; full = CHR ''@'' # clean in
      case map_of user_cache clean of
        Some uid \<Rightarrow> (user_cache, [], Inr uid)
      | None \<Rightarrow>
         (case via_get_chat tg full of
            Some uid \<Rightarrow> (AList.update clean uid user_cache, [GetChat full], Inr uid)
          | None \<Rightarrow>
             (case via_administrators tg clean of
                Some uid \<Rightarrow>
                  (AList.update clean uid user_cache,
                   [GetChat full, GetChatAdministrators], Inr uid)
              | None \<Rightarrow>
                 (case via_chat_member tg full of
                    Some uid \<Rightarrow>
                      (AList.update clean uid user_cache,
                       [GetChat full, GetChatAdministrators, GetChatMember full], Inr uid)
                  | None \<Rightarrow>
                      (user_cache,
                       [GetChat full, GetChatAdministrators, GetChatMember full],
                       Inl ValueError)))))"

text \<open>\<open>cache_user_info\<close> (bot.py, lines 282-288).\<close>

definition cache_user_info :: "tg_user option \<Rightarrow> cache \<Rightarrow> cache" where
  "cache_user_info effective_user user_cache =
     (case effective_user of
        None \<Rightarrow> user_cache
      | Some u \<Rightarrow>
         (case user_name u of
            None \<Rightarrow> user_cache
          | Some n \<Rightarrow>
              if n = [] then user_cache
              else AList.update (lower n) (user_ident u) user_cache))"

section \<open>Orders and the bot's state\<close>

text \<open>
  Modelled from the spec: the \<open>Order\<close> class of \<open>mainapp.models\<close> (its fields, and
  \<open>get_by_id\<close>, \<open>update_status\<close>, \<open>approve_payment\<close>, \<open>reject_payment\<close>) is imported by
  bot.py but is not among the sources.  An order has one of the four states of the
  specification, an optional reason (\<open>statusDetails\<close> in bot.py), its owner's Telegram
  identity and a creation time; the persistent store maps order identities to orders.
\<close>

datatype order_status = awaiting_payment | pending_verification | verified | rejected

record order =
  candidateId :: string
  telegramUserId :: string
  status :: order_status
  statusDetails :: "string option"
  paymentScreenshotUrl :: "string option"
  createdAt :: nat

type_synonym orders = "(string \<times> order) list"

text \<open>
  Modelled from the spec: \<open>approve\<close> moves a \<open>pending_verification\<close> order to
  \<open>verified\<close> and fails with \<open>InvalidTransition\<close> from every other state, leaving the
  order as it is.
\<close>

definition approve_payment :: "order \<Rightarrow> error + order" where
  "approve_payment ord =
     (if status ord = pending_verification
      then Inr (ord\<lparr>status := verified, statusDetails := None\<rparr>)
      else Inl InvalidTransition)"

text \<open>
  Modelled from the spec: \<open>reject\<close> moves an order to \<open>rejected\<close> with the reason and
  fails with \<open>InvalidTransition\<close> on an order that is already \<open>verified\<close> or \<open>rejected\<close>.
\<close>

definition reject_payment :: "string \<Rightarrow> order \<Rightarrow> error + order" where
  "reject_payment reason ord =
     (if status ord = verified then Inl InvalidTransition
      else if status ord = rejected then Inl InvalidTransition
      else Inr (ord\<lparr>status := rejected, statusDetails := Some reason\<rparr>))"

text \<open>
  Modelled from the spec: \<open>update_status\<close>, as \<open>handle_payment_screenshot\<close> calls it,
  sets the state and its details.
\<close>

definition update_status :: "order_status \<Rightarrow> string \<Rightarrow> order \<Rightarrow> order" where
  "update_status st details ord = ord\<lparr>status := st, statusDetails := Some details\<rparr>"

text \<open>
  What the bot sends that the properties speak of: the terminal-state notification to a
  submitter's chat, the annotation appended to the caption of the admin's message, the
  error replies to the admin, and the payment evidence forwarded to the channel (its
  caption).  Prompts of the wizard are not recorded.
\<close>

datatype notice = PaymentVerified | PaymentRejected string

datatype annotation =
  Approved | Rejected | ApprovedNotifyError | RejectedNotifyError | InvalidCallbackData

datatype admin_text = SessionNotFound | OrderNotFound | ProcessingError

datatype effect =
  Notify int notice | Annotate annotation | AdminReply admin_text | Evidence string

record bot =
  user_sessions :: sessions
  user_cache :: cache
  orders :: orders
  outbox :: "effect list"

definition emit :: "effect \<Rightarrow> bot \<Rightarrow> bot" where
  "emit e b = b\<lparr>outbox := outbox b @ [e]\<rparr>"

text \<open>\<open>session['notified'] = True\<close> on the session a handler holds for \<open>tid\<close>.\<close>

definition mark_notified :: "string \<Rightarrow> bot \<Rightarrow> bot" where
  "mark_notified tid b =
     b\<lparr>user_sessions := AList.map_entry tid (\<lambda>s. s\<lparr>notified := Some True\<rparr>) (user_sessions b)\<rparr>"

definition terminal :: "order_status \<Rightarrow> bool" where
  "terminal st = (st = verified \<or> st = rejected)"

definition or_default :: "string option \<Rightarrow> string \<Rightarrow> string" where
  "or_default v d = (case v of None \<Rightarrow> d | Some r \<Rightarrow> if r = [] then d else r)"

section \<open>The background polling loop\<close>

text \<open>
  What \<open>poll_order_status_changes\<close> does for one session before it awaits anything
  (bot.py, lines 256-275): skip it, raise (the order fetch failed), or start sending a
  notification.
\<close>

datatype poll_action = PSkip | PRaise | PSend int notice

definition poll_check :: "bool \<Rightarrow> orders \<Rightarrow> session \<Rightarrow> poll_action" where
  "poll_check fetch_ok store s =
     (case order_id s of
        None \<Rightarrow> PSkip
      | Some oid \<Rightarrow>
         (case chat_id s of
            None \<Rightarrow> PSkip
          | Some chat \<Rightarrow>
              if fetch_ok then
                (case map_of store oid of
                   None \<Rightarrow> PSkip
                 | Some ord \<Rightarrow>
                     if terminal (status ord) \<and> \<not> is_notified s then
                       (if status ord = verified then PSend chat PaymentVerified
                        else PSend chat
                          (PaymentRejected (or_default (statusDetails ord) ''No reason provided'')))
                     else PSkip)
              else PRaise))"

text \<open>
  The environment of one tick: for which sessions (by Telegram identity) the order
  fetch raises and for which the send raises.
\<close>

record tick_env =
  fetch_raises :: "string \<Rightarrow> bool"
  send_raises :: "string \<Rightarrow> bool"

text \<open>
  The \<open>for\<close> loop of one tick over the snapshot \<open>list(self.user_sessions.items())\<close>, run
  without interruption.  The flag says whether an exception left the loop; the
  \<open>try\<close> is around the whole loop, so an exception ends it.
\<close>

fun poll_sessions :: "tick_env \<Rightarrow> string list \<Rightarrow> bot \<Rightarrow> bot \<times> bool" where
  "poll_sessions env [] b = (b, False)"
| "poll_sessions env (tid # rest) b =
     (case map_of (user_sessions b) tid of
        None \<Rightarrow> poll_sessions env rest b
      | Some s \<Rightarrow>
         (case poll_check (\<not> fetch_raises env tid) (orders b) s of
            PSkip \<Rightarrow> poll_sessions env rest b
          | PRaise \<Rightarrow> (b, True)
          | PSend chat n \<Rightarrow>
              if send_raises env tid then (b, True)
              else poll_sessions env rest (mark_notified tid (emit (Notify chat n) b))))"

definition poll_tick :: "tick_env \<Rightarrow> bot \<Rightarrow> bot \<times> bool" where
  "poll_tick env b = poll_sessions env (map fst (user_sessions b)) b"

text \<open>
  \<open>while True: try: ... except Exception: log; await asyncio.sleep(300)\<close>: one tick per
  environment of the list; the result counts the ticks that were run.
\<close>

fun poll_order_status_changes :: "tick_env list \<Rightarrow> bot \<Rightarrow> bot \<times> nat" where
  "poll_order_status_changes [] b = (b, 0)"
| "poll_order_status_changes (env # envs) b =
     (case poll_tick env b of
        (b', raised) \<Rightarrow>
          (case poll_order_status_changes envs b' of (b'', n) \<Rightarrow> (b'', Suc n)))"

section \<open>Admin decisions by free-text reply\<close>

record admin_msg =
  msg_chat :: int
  msg_text :: "string option"
  reply_caption :: "string option option"

text \<open>
  The caption prefix that \<open>handle_payment_screenshot\<close> writes and \<open>handle_admin_reply\<close>
  expects: the credit-card emoji (U+1F4B3, spelled as its four UTF-8 bytes) and
  \<open>Payment\<close>.
\<close>

definition payment_prefix :: string where
  "payment_prefix = [CHR 0xF0, CHR 0x9F, CHR 0x92, CHR 0xB3] @ '' Payment''"

text \<open>
  \<open>caption.split('Order ID: ')[1].split('\n')[0].strip()\<close>; \<open>None\<close> is the
  \<open>IndexError\<close>.
\<close>

definition parse_order_id :: "string \<Rightarrow> string option" where
  "parse_order_id caption =
     (case py_split caption ''Order ID: '' of
        [] \<Rightarrow> None
      | [p] \<Rightarrow> None
      | p # q # qs \<Rightarrow>
         (case py_split q [CHR 0x0A] of
            [] \<Rightarrow> None
          | l # ls \<Rightarrow> Some (strip l)))"

text \<open>
  A handler that has reached its \<open>await send_message\<close>: the session it serves, the chat
  and the notification.
\<close>

datatype pending = Done | AwaitSend string int notice

text \<open>
  \<open>handle_admin_reply\<close> (bot.py, lines 1758-1823) up to its only \<open>await\<close>.  \<open>channel\<close> is
  \<open>PRIVATE_CHANNEL_ID\<close>; \<open>fetched\<close> says whether \<open>Order.get_by_id\<close> returned (an
  exception is caught by the outer \<open>except\<close> and the reply is dropped).  The message
  text is lower-cased once and that text is used for the decision and for the reason.
\<close>

definition admin_reply_begin ::
  "int \<Rightarrow> bool \<Rightarrow> admin_msg option \<Rightarrow> bot \<Rightarrow> bot \<times> pending" where
  "admin_reply_begin channel fetched upd b =
     (case upd of
        None \<Rightarrow> (b, Done)
      | Some m \<Rightarrow>
          if msg_chat m = 0 then (b, Done)
          else if msg_chat m \<noteq> channel then (b, Done)
          else
            let reply_text = (case msg_text m of None \<Rightarrow> [] | Some t \<Rightarrow> lower t) in
            if \<not> (startswith reply_text ''approve'' \<or> startswith reply_text ''reject:'')
            then (b, Done)
            else
              (case reply_caption m of
                 None \<Rightarrow> (b, Done)
               | Some None \<Rightarrow> (b, Done)
               | Some (Some caption) \<Rightarrow>
                   if caption = [] then (b, Done)
                   else if \<not> startswith caption payment_prefix then (b, Done)
                   else
                     (case parse_order_id caption of
                        None \<Rightarrow> (b, Done)
                      | Some oid \<Rightarrow>
                          if \<not> fetched then (b, Done)
                          else
                            (case map_of (orders b) oid of
                               None \<Rightarrow> (b, Done)
                             | Some ord \<Rightarrow>
                                 let tid = telegramUserId ord;
                                     got = get_user_session tid (user_sessions b);
                                     b1 = b\<lparr>user_sessions := fst got\<rparr>;
                                     s = snd got
                                 in
                                 (case chat_id s of
                                    None \<Rightarrow> (b1, Done)
                                  | Some chat \<Rightarrow>
                                      if reply_text = ''approve'' then
                                        (case approve_payment ord of
                                           Inl e \<Rightarrow> (b1, Done)
                                         | Inr ord' \<Rightarrow>
                                             let b2 = b1\<lparr>orders := AList.update oid ord' (orders b1)\<rparr> in
                                             if is_notified s then (b2, Done)
                                             else (b2, AwaitSend tid chat PaymentVerified))
                                      else if startswith reply_text ''reject:'' then
                                        let reason = or_default (Some (strip (drop 7 reply_text)))
                                                       ''No reason provided'' in
                                        (case reject_payment reason ord of
                                           Inl e \<Rightarrow> (b1, Done)
                                         | Inr ord' \<Rightarrow>
                                             let b2 = b1\<lparr>orders := AList.update oid ord' (orders b1)\<rparr> in
                                             if is_notified s then (b2, Done)
                                             else (b2, AwaitSend tid chat (PaymentRejected reason)))
                                      else (b1, Done))))))"

text \<open>
  After the \<open>await\<close>: a send that returned is followed by \<open>session['notified'] = True\<close>;
  a send that raised is caught by the outer \<open>except\<close>, and nothing else happens.
\<close>

definition admin_reply_resume :: "bool \<Rightarrow> string \<Rightarrow> int \<Rightarrow> notice \<Rightarrow> bot \<Rightarrow> bot" where
  "admin_reply_resume sent tid chat n b =
     (if sent then mark_notified tid (emit (Notify chat n) b) else b)"

definition handle_admin_reply ::
  "int \<Rightarrow> bool \<Rightarrow> bool \<Rightarrow> admin_msg option \<Rightarrow> bot \<Rightarrow> bot" where
  "handle_admin_reply channel fetched sent upd b =
     (case admin_reply_begin channel fetched upd b of
        (b', Done) \<Rightarrow> b'
      | (b', AwaitSend tid chat n) \<Rightarrow> admin_reply_resume sent tid chat n b')"

section \<open>Admin decisions by button\<close>

text \<open>
  The outcomes of the external calls of \<open>handle_admin_response\<close>, one per call site:
  \<open>query.answer()\<close>, \<open>Order.get_by_id\<close>, the \<open>send_message\<close> to the user, the
  \<open>edit_message_caption\<close> of the \<open>try\<close> body, the \<open>edit_message_caption\<close> of an
  \<open>except\<close> clause, the \<open>reply_text\<close> of the \<open>try\<close> body and the \<open>reply_text\<close> of the
  last \<open>except\<close> clause.  A call of the Telegram client returns or raises a
  \<open>TelegramError\<close>, which is not a \<open>ValueError\<close>; the order fetch returns, raises
  \<open>ValueError\<close> (the store refuses the identity it is given) or raises something else,
  and the handler has one \<open>except\<close> clause for each.
\<close>

datatype fetch_result = FetchReturns | FetchValueError | FetchError

record response_env =
  ack_ok :: bool
  fetch :: fetch_result
  notify_ok :: bool
  caption_ok :: bool
  err_caption_ok :: bool
  info_reply_ok :: bool
  final_reply_ok :: bool

datatype outcome = Returned | Escaped

text \<open>
  The last clause, \<open>except Exception\<close>: a reply to the admin; if that raises too, the
  exception leaves the handler.
\<close>

definition response_crashed :: "response_env \<Rightarrow> bot \<Rightarrow> bot \<times> outcome" where
  "response_crashed env b =
     (if final_reply_ok env then (emit (AdminReply ProcessingError) b, Returned)
      else (b, Escaped))"

text \<open>
  The inner \<open>except Exception\<close> of the approve and the reject branch: the caption gets
  the error annotation; if that edit raises, the last clause takes over.
\<close>

definition response_failed :: "response_env \<Rightarrow> annotation \<Rightarrow> bot \<Rightarrow> bot \<times> outcome" where
  "response_failed env a b =
     (if err_caption_ok env then (emit (Annotate a) b, Returned)
      else response_crashed env b)"

text \<open>
  The clause \<open>except ValueError\<close>: the caption gets the annotation
  \<open>Invalid callback data\<close>; an exception of that edit, raised inside an \<open>except\<close> clause,
  leaves the handler.
\<close>

definition response_invalid :: "response_env \<Rightarrow> bot \<Rightarrow> bot \<times> outcome" where
  "response_invalid env b =
     (if err_caption_ok env then (emit (Annotate InvalidCallbackData) b, Returned)
      else (b, Escaped))"

definition response_info :: "response_env \<Rightarrow> admin_text \<Rightarrow> bot \<Rightarrow> bot \<times> outcome" where
  "response_info env t b =
     (if info_reply_ok env then (emit (AdminReply t) b, Returned)
      else response_crashed env b)"

datatype response_pending =
  RDone outcome | RAwaitSend string int notice annotation annotation

text \<open>
  \<open>handle_admin_response\<close> (bot.py, lines 1557-1624) from the \<open>try\<close> to the
  \<open>await send_message\<close> of the approve or the reject branch.  The unpacking of the
  token into three parts raises \<open>ValueError\<close> for any other number of parts, before a
  session is looked up.
\<close>

definition admin_response_begin ::
  "response_env \<Rightarrow> string \<Rightarrow> bot \<Rightarrow> bot \<times> response_pending" where
  "admin_response_begin env data b =
     (case py_split_max data (CHR ''_'') 2 of
        [action, tid, oid] \<Rightarrow>
          let got = get_user_session tid (user_sessions b);
              b1 = b\<lparr>user_sessions := fst got\<rparr>;
              s = snd got
          in
          (case chat_id s of
             None \<Rightarrow> (case response_info env SessionNotFound b1 of (b2, oc) \<Rightarrow> (b2, RDone oc))
           | Some chat \<Rightarrow>
               (case fetch env of
                  FetchError \<Rightarrow>
                    (case response_crashed env b1 of (b2, oc) \<Rightarrow> (b2, RDone oc))
                | FetchValueError \<Rightarrow>
                    (case response_invalid env b1 of (b2, oc) \<Rightarrow> (b2, RDone oc))
                | FetchReturns \<Rightarrow>
                 (case map_of (orders b1) oid of
                    None \<Rightarrow> (case response_info env OrderNotFound b1 of (b2, oc) \<Rightarrow> (b2, RDone oc))
                  | Some ord \<Rightarrow>
                      if action = ''approve'' then
                        (case approve_payment ord of
                           Inl e \<Rightarrow>
                             (case response_failed env ApprovedNotifyError b1 of
                                (b2, oc) \<Rightarrow> (b2, RDone oc))
                         | Inr ord' \<Rightarrow>
                             (b1\<lparr>orders := AList.update oid ord' (orders b1)\<rparr>,
                              RAwaitSend tid chat PaymentVerified Approved ApprovedNotifyError))
                      else if action = ''reject'' then
                        (case reject_payment ''No reason provided'' ord of
                           Inl e \<Rightarrow>
                             (case response_failed env RejectedNotifyError b1 of
                                (b2, oc) \<Rightarrow> (b2, RDone oc))
                         | Inr ord' \<Rightarrow>
                             (b1\<lparr>orders := AList.update oid ord' (orders b1)\<rparr>,
                              RAwaitSend tid chat (PaymentRejected ''No reason provided'')
                                Rejected RejectedNotifyError))
                      else (b1, RDone Returned))))
      | parts \<Rightarrow> (case response_invalid env b of (b2, oc) \<Rightarrow> (b2, RDone oc)))"

text \<open>
  From the \<open>await send_message\<close> on: the send, the caption edit, and only then
  \<open>session['notified'] = True\<close>; an exception of either call goes to the inner
  \<open>except\<close>.
\<close>

definition admin_response_resume ::
  "response_env \<Rightarrow> string \<Rightarrow> int \<Rightarrow> notice \<Rightarrow> annotation \<Rightarrow> annotation \<Rightarrow> bot \<Rightarrow> bot \<times> outcome"
  where
  "admin_response_resume env tid chat n done_note error_note b =
     (if notify_ok env then
        (if caption_ok env
         then (mark_notified tid (emit (Annotate done_note) (emit (Notify chat n) b)), Returned)
         else response_failed env error_note (emit (Notify chat n) b))
      else response_failed env error_note b)"

definition handle_admin_response :: "response_env \<Rightarrow> string \<Rightarrow> bot \<Rightarrow> bot \<times> outcome" where
  "handle_admin_response env data b =
     (if ack_ok env then
        (case admin_response_begin env data b of
           (b', RDone oc) \<Rightarrow> (b', oc)
         | (b', RAwaitSend tid chat n done_note error_note) \<Rightarrow>
             admin_response_resume env tid chat n done_note error_note b')
      else (b, Escaped))"

section \<open>The poller and the reply handler as concurrent tasks\<close>

text \<open>
  The poller is a task of its own (\<open>create_task\<close>); updates are handled one at a time.
  A task runs until it awaits, so the poller and a handler interleave exactly at their
  \<open>await\<close>s.  The poller is asleep or awaits the send for one session, with the rest
  of its snapshot still to visit; the reply handler is absent (\<open>Done\<close>) or awaits
  its send.  Neither task replaces or removes a session, so the session a task holds is
  the table's entry under the same key.
\<close>

datatype poll_pc = PollSleeping | PollSending string int notice "string list"

fun poll_advance :: "(string \<Rightarrow> bool) \<Rightarrow> string list \<Rightarrow> bot \<Rightarrow> poll_pc" where
  "poll_advance fr [] b = PollSleeping"
| "poll_advance fr (tid # rest) b =
     (case map_of (user_sessions b) tid of
        None \<Rightarrow> poll_advance fr rest b
      | Some s \<Rightarrow>
         (case poll_check (\<not> fr tid) (orders b) s of
            PSkip \<Rightarrow> poll_advance fr rest b
          | PRaise \<Rightarrow> PollSleeping
          | PSend chat n \<Rightarrow> PollSending tid chat n rest))"

record system =
  shared :: bot
  poller :: poll_pc
  replier :: pending

text \<open>
  The steps: the poller's sleep ends and a tick starts (with the fetches that raise);
  the poller's send returns or raises; an admin reply is dispatched; the reply
  handler's send returns or raises.  \<open>None\<close>: the step is not enabled.
\<close>

datatype action =
    PollWakes "string \<Rightarrow> bool"
  | PollSendReturns bool "string \<Rightarrow> bool"
  | ReplyArrives bool "admin_msg option"
  | ReplySendReturns bool

fun step :: "int \<Rightarrow> action \<Rightarrow> system \<Rightarrow> system option" where
  "step channel (PollWakes fr) sys =
     (case poller sys of
        PollSleeping \<Rightarrow>
          Some (sys\<lparr>poller := poll_advance fr (map fst (user_sessions (shared sys))) (shared sys)\<rparr>)
      | PollSending tid chat n rest \<Rightarrow> None)"
| "step channel (PollSendReturns sent fr) sys =
     (case poller sys of
        PollSleeping \<Rightarrow> None
      | PollSending tid chat n rest \<Rightarrow>
          if sent then
            let b' = mark_notified tid (emit (Notify chat n) (shared sys)) in
            Some (sys\<lparr>shared := b', poller := poll_advance fr rest b'\<rparr>)
          else Some (sys\<lparr>poller := PollSleeping\<rparr>))"
| "step channel (ReplyArrives fetched upd) sys =
     (case replier sys of
        Done \<Rightarrow>
          (case admin_reply_begin channel fetched upd (shared sys) of
             (b', p) \<Rightarrow> Some (sys\<lparr>shared := b', replier := p\<rparr>))
      | AwaitSend tid chat n \<Rightarrow> None)"
| "step channel (ReplySendReturns sent) sys =
     (case replier sys of
        Done \<Rightarrow> None
      | AwaitSend tid chat n \<Rightarrow>
          Some (sys\<lparr>shared := admin_reply_resume sent tid chat n (shared sys), replier := Done\<rparr>))"

fun run :: "int \<Rightarrow> action list \<Rightarrow> system \<Rightarrow> system option" where
  "run channel [] sys = Some sys"
| "run channel (a # as) sys =
     (case step channel a sys of None \<Rightarrow> None | Some sys' \<Rightarrow> run channel as sys')"

text \<open>How many times a notification went to a chat.\<close>

definition deliveries :: "int \<Rightarrow> effect list \<Rightarrow> nat" where
  "deliveries chat out = length (filter (\<lambda>e. case e of Notify c n \<Rightarrow> c = chat | _ \<Rightarrow> False) out)"

section \<open>The wizard\<close>

text \<open>
  The conversation states of \<open>setup_handlers\<close> (bot.py, lines 98-114);
  \<open>END\<close> is \<open>ConversationHandler.END\<close>.
\<close>

datatype conv_state =
    SELECT_LANGUAGE | START | COLLECT_PERSONAL_INFO | COLLECT_CONTACT_INFO
  | COLLECT_PROFILE_IMAGE | COLLECT_PROFESSIONAL_INFO | COLLECT_EDUCATION | COLLECT_SKILLS
  | COLLECT_CAREER_OBJECTIVE | COLLECT_CERTIFICATIONS | COLLECT_PROJECTS | COLLECT_LANGUAGES
  | COLLECT_ACTIVITIES | CONFIRM_ORDER | PAYMENT | END

text \<open>
  What a handler call ends with: it returns a state, it returns \<open>None\<close> (it fell
  through all its branches), or an exception leaves it.
\<close>

datatype ret = Return "conv_state option" | Raise

text \<open>
  The external calls of the wizard's handlers, by call site: the acknowledgement of a
  callback query, the prompt of the handler's normal path (\<open>reply_text\<close>,
  \<open>edit_message_text\<close> or \<open>send_message\<close>; the look-up of the prompt's text in the
  \<open>PROMPTS\<close> table is part of it), the message sent from an \<open>except\<close> clause or after a
  failure, the deletion of an earlier message, \<open>get_file\<close>, the forwarding of an
  upload to the channel, the tutorial video, the sample documents, and the
  \<open>Saving...\<close> message with its later deletion.
\<close>

datatype site =
  Ack | Prompt | ErrorPrompt | Delete | GetFile | Forward | Video | Samples | Saving | Unsave

text \<open>The sub-item sequences of a stored profile, as \<open>get_complete_profile\<close> returns them.\<close>

record profile =
  p_workExperiences :: "pydict list"
  p_education :: "pydict list"
  p_skills :: "pydict list"
  p_careerObjectives :: "pydict list"
  p_certificationsAwards :: "pydict list"
  p_projects :: "pydict list"
  p_languages :: "pydict list"
  p_otherActivities :: "pydict list"

text \<open>
  The environment of one handler call: which Telegram calls return (\<open>answers\<close>), the
  identities of the messages they return, whether the calls to the document store
  return, what the store has for the user (\<open>candidate\<close>: the candidate's \<open>uid\<close> and
  \<open>to_dict()\<close>; \<open>stored\<close>: the complete profile), how many sub-item saves of
  \<open>confirm_order\<close> return before one raises, the values \<open>uuid4\<close> gives, the time,
  and the two configured media (\<open>TUTORIAL_VIDEO_FILE_ID\<close>, \<open>SAMPLE_CV_FILE_IDS\<close>).
\<close>

record env =
  answers :: "site \<Rightarrow> bool"
  sent_id :: int
  saving_id :: int
  db_ok :: bool
  candidate :: "(string \<times> pydict) option"
  stored :: profile
  saves :: nat
  order_saved :: bool
  fresh_uid :: string
  fresh_oid :: string
  clock :: nat
  has_video :: bool
  has_samples :: bool

text \<open>
  An upload: a photo (size and path of the file \<open>get_file\<close> returns) or a document
  (declared size, MIME type, file name if any, path).
\<close>

datatype media = NoMedia | Photo nat string | Document nat string "string option" string

definition prompted :: "bool \<Rightarrow> conv_state \<Rightarrow> ret" where
  "prompted sent st = (if sent then Return (Some st) else Raise)"

text \<open>
  \<open>session = self.get_user_session(telegram_id)\<close> followed by in-place changes of that
  session: the handler's effect on the session is written back under the same key.
\<close>

definition on_session :: "string \<Rightarrow> (session \<Rightarrow> session \<times> ret) \<Rightarrow> bot \<Rightarrow> bot \<times> ret" where
  "on_session tid h b =
     (let got = get_user_session tid (user_sessions b);
          r = h (snd got)
      in (b\<lparr>user_sessions := AList.update tid (fst r) (fst got)\<rparr>, snd r))"

text \<open>A handler of a callback query: \<open>await query.answer()\<close> comes first.\<close>

definition on_query :: "env \<Rightarrow> string \<Rightarrow> (session \<Rightarrow> session \<times> ret) \<Rightarrow> bot \<Rightarrow> bot \<times> ret" where
  "on_query e tid h b = (if answers e Ack then on_session tid h b else (b, Raise))"

text \<open>\<open>start\<close> (bot.py, lines 370-384).\<close>

definition start :: "env \<Rightarrow> int \<Rightarrow> session \<Rightarrow> session \<times> ret" where
  "start e chat s0 =
     (let s = s0\<lparr>chat_id := Some chat\<rparr> in (s, prompted (answers e Prompt) SELECT_LANGUAGE))"

text \<open>
  \<open>select_language\<close> (bot.py, lines 386-413); \<open>query.data.split('_')[1]\<close> raises
  \<open>IndexError\<close> when the data has no underscore.
\<close>

definition select_language :: "env \<Rightarrow> int \<Rightarrow> string \<Rightarrow> session \<Rightarrow> session \<times> ret" where
  "select_language e chat data s0 =
     (let s1 = s0\<lparr>chat_id := Some chat\<rparr> in
      case py_split data ''_'' of
        [] \<Rightarrow> (s1, Raise)
      | [p] \<Rightarrow> (s1, Raise)
      | p # q # qs \<Rightarrow>
          let s2 = s1\<lparr>language := q\<rparr> in
          if db_ok e \<and> answers e Prompt
          then (s2\<lparr>menu_message_id := Some (sent_id e)\<rparr>, Return (Some START))
          else (s2, Raise))"

text \<open>
  The start of \<open>handle_returning_user_choice\<close>, \<open>send_tutorial_video\<close> and
  \<open>send_sample_cvs\<close>: the earlier menu message is deleted, and its identity forgotten
  when the deletion returned.
\<close>

definition drop_menu :: "env \<Rightarrow> session \<Rightarrow> session" where
  "drop_menu e s =
     (case menu_message_id s of
        None \<Rightarrow> s
      | Some m \<Rightarrow> if answers e Delete then s\<lparr>menu_message_id := None\<rparr> else s)"

text \<open>
  \<open>handle_returning_user_choice\<close> (bot.py, lines 415-474).  \<open>send_tutorial_video\<close> and
  \<open>send_sample_cvs\<close> raise only when their own error message cannot be sent.
\<close>

definition handle_returning_user_choice ::
  "env \<Rightarrow> int \<Rightarrow> string \<Rightarrow> session \<Rightarrow> session \<times> ret" where
  "handle_returning_user_choice e chat data s0 =
     (let s1 = s0\<lparr>chat_id := Some chat\<rparr> in
      if data = ''new_cv'' then
        (let s2 = drop_menu e s1 in
         if answers e Prompt
         then (s2\<lparr>current_field := Some ''firstName''\<rparr>, Return (Some COLLECT_PERSONAL_INFO))
         else (s2, Raise))
      else if data = ''guide_video'' then
        (let s2 = drop_menu e s1 in
         if (has_video e \<and> answers e Video) \<or> answers e ErrorPrompt then
           (if answers e Prompt
            then (s2\<lparr>menu_message_id := Some (sent_id e)\<rparr>, Return (Some START))
            else (s2, Raise))
         else (s2, Raise))
      else if data = ''samples'' then
        (let s2 = drop_menu e s1 in
         if (has_samples e \<and> answers e Samples) \<or> answers e ErrorPrompt then
           (if answers e Prompt
            then (s2\<lparr>menu_message_id := Some (sent_id e)\<rparr>, Return (Some START))
            else (s2, Raise))
         else (s2, Raise))
      else (s1, Return None))"

text \<open>
  The filter of \<open>start_collecting_info\<close> on loaded sub-items: the item's
  \<open>candidate_uid\<close> is present, not empty and the candidate's.
\<close>

definition owned_by :: "string \<Rightarrow> pydict \<Rightarrow> bool" where
  "owned_by uid item =
     (case map_of item ''candidate_uid'' of
        None \<Rightarrow> False
      | Some None \<Rightarrow> False
      | Some (Some u) \<Rightarrow> u \<noteq> [] \<and> u = uid)"

definition dict_get :: "pydict \<Rightarrow> string \<Rightarrow> string option \<Rightarrow> string option" where
  "dict_get d k dflt = (case map_of d k of None \<Rightarrow> dflt | Some v \<Rightarrow> v)"

text \<open>
  \<open>start_collecting_info\<close> (bot.py, lines 571-632), for a callback query.  (It is also
  registered for text messages, where \<open>update.callback_query\<close> is \<open>None\<close> and the first
  statement raises.)
\<close>

definition start_collecting_info ::
  "env \<Rightarrow> int \<Rightarrow> string \<Rightarrow> session \<Rightarrow> session \<times> ret" where
  "start_collecting_info e chat data s0 =
     (let s1 = s0\<lparr>chat_id := Some chat\<rparr> in
      if data = ''update_profile'' then
        (if db_ok e then
           (case candidate e of
              None \<Rightarrow> (s1, prompted (answers e Prompt) START)
            | Some (uid, cd) \<Rightarrow>
                let s2 = s1\<lparr>candidate_data :=
                            setitem ''availability''
                              (dict_get cd ''availability'' (Some ''To be specified'')) cd,
                          workExperiences := filter (owned_by uid) (p_workExperiences (stored e)),
                          education := filter (owned_by uid) (p_education (stored e)),
                          skills := filter (owned_by uid) (p_skills (stored e)),
                          careerObjectives := filter (owned_by uid) (p_careerObjectives (stored e)),
                          certificationsAwards :=
                            filter (owned_by uid) (p_certificationsAwards (stored e)),
                          projects := filter (owned_by uid) (p_projects (stored e)),
                          languages := filter (owned_by uid) (p_languages (stored e)),
                          otherActivities := filter (owned_by uid) (p_otherActivities (stored e))\<rparr>
                in (s2, prompted (answers e Prompt) START))
         else (s1, Raise))
      else
        (if answers e Prompt
         then (s1\<lparr>current_field := Some ''firstName''\<rparr>, Return (Some COLLECT_PERSONAL_INFO))
         else (s1, Raise)))"

text \<open>\<open>session['candidate_data'][key] = value\<close>.\<close>

definition set_candidate :: "string \<Rightarrow> string option \<Rightarrow> session \<Rightarrow> session" where
  "set_candidate k v s = s\<lparr>candidate_data := setitem k v (candidate_data s)\<rparr>"

text \<open>The value an optional field stores: \<open>text if text.lower() != 'skip' else None\<close>.\<close>

definition unless_skip :: "string \<Rightarrow> string option" where
  "unless_skip text = (if is_skip text then None else Some text)"

text \<open>\<open>collect_personal_info\<close> (bot.py, lines 650-672).\<close>

definition collect_personal_info ::
  "env \<Rightarrow> int \<Rightarrow> string \<Rightarrow> session \<Rightarrow> session \<times> ret" where
  "collect_personal_info e chat text s0 =
     (let s = s0\<lparr>chat_id := Some chat\<rparr> in
      if current_field s = Some ''firstName'' then
        ((set_candidate ''firstName'' (Some text) s)\<lparr>current_field := Some ''middleName''\<rparr>,
         prompted (answers e Prompt) COLLECT_PERSONAL_INFO)
      else if current_field s = Some ''middleName'' then
        ((set_candidate ''middleName'' (Some text) s)\<lparr>current_field := Some ''lastName''\<rparr>,
         prompted (answers e Prompt) COLLECT_PERSONAL_INFO)
      else if current_field s = Some ''lastName'' then
        ((set_candidate ''lastName'' (Some text) s)\<lparr>current_field := Some ''phoneNumber''\<rparr>,
         prompted (answers e Prompt) COLLECT_CONTACT_INFO)
      else (s, Return None))"

text \<open>\<open>collect_contact_info\<close> (bot.py, lines 674-706).\<close>

definition collect_contact_info ::
  "env \<Rightarrow> int \<Rightarrow> string \<Rightarrow> session \<Rightarrow> session \<times> ret" where
  "collect_contact_info e chat text s0 =
     (let s = s0\<lparr>chat_id := Some chat\<rparr> in
      if current_field s = Some ''phoneNumber'' then
        ((set_candidate ''phoneNumber'' (Some text) s)\<lparr>current_field := Some ''emailAddress''\<rparr>,
         prompted (answers e Prompt) COLLECT_CONTACT_INFO)
      else if current_field s = Some ''emailAddress'' then
        ((set_candidate ''emailAddress'' (Some text) s)\<lparr>current_field := Some ''linkedinProfile''\<rparr>,
         prompted (answers e Prompt) COLLECT_CONTACT_INFO)
      else if current_field s = Some ''linkedinProfile'' then
        ((set_candidate ''linkedinProfile'' (unless_skip text) s)\<lparr>current_field := Some ''city''\<rparr>,
         prompted (answers e Prompt) COLLECT_CONTACT_INFO)
      else if current_field s = Some ''city'' then
        ((set_candidate ''city'' (Some text) s)\<lparr>current_field := Some ''country''\<rparr>,
         prompted (answers e Prompt) COLLECT_CONTACT_INFO)
      else if current_field s = Some ''country'' then
        ((set_candidate ''country'' (Some text) s)\<lparr>current_field := None\<rparr>,
         prompted (answers e Prompt) COLLECT_PROFILE_IMAGE)
      else (s, Return None))"

text \<open>
  The upload checks shared by \<open>collect_profile_image\<close> and
  \<open>handle_payment_screenshot\<close>: five megabytes, three MIME types, four extensions
  (\<open>file_name.split('.')[-1].lower()\<close>).
\<close>

definition max_size :: nat where
  "max_size = 5 * 1024 * 1024"

definition allowed_mime :: "string \<Rightarrow> bool" where
  "allowed_mime m = (m \<in> set [''image/jpeg'', ''image/png'', ''application/pdf''])"

definition extension_of :: "string \<Rightarrow> string" where
  "extension_of file_name = lower (last (py_split file_name ''.''))"

definition allowed_name :: "string option \<Rightarrow> bool" where
  "allowed_name file_name =
     (case file_name of
        None \<Rightarrow> True
      | Some n \<Rightarrow> n = [] \<or> extension_of n \<in> set [''jpg'', ''jpeg'', ''png'', ''pdf''])"

text \<open>
  \<open>collect_profile_image\<close> (bot.py, lines 708-788).  Inside the \<open>try\<close> every failure,
  also that of a prompt, goes to the \<open>except\<close> clause, which sends the error message.
\<close>

definition image_failed :: "env \<Rightarrow> session \<Rightarrow> session \<times> ret" where
  "image_failed e s = (s, prompted (answers e ErrorPrompt) COLLECT_PROFILE_IMAGE)"

definition image_reply :: "env \<Rightarrow> session \<Rightarrow> session \<times> ret" where
  "image_reply e s =
     (if answers e Prompt then (s, Return (Some COLLECT_PROFILE_IMAGE)) else image_failed e s)"

definition collect_profile_image ::
  "env \<Rightarrow> int \<Rightarrow> string option \<Rightarrow> media \<Rightarrow> session \<Rightarrow> session \<times> ret" where
  "collect_profile_image e chat text upload s0 =
     (let s = s0\<lparr>chat_id := Some chat\<rparr> in
      if (case text of None \<Rightarrow> False | Some t \<Rightarrow> t \<noteq> [] \<and> is_skip t)
      then (s, prompted (answers e Prompt) COLLECT_PROFILE_IMAGE)
      else
        (case upload of
           Photo sz path \<Rightarrow>
             if answers e GetFile then
               (if sz > max_size then image_reply e s
                else if answers e Forward
                  then image_reply e (set_candidate ''profileImageUrl'' (Some path) s)
                  else image_failed e s)
             else image_failed e s
         | Document sz mime file_name path \<Rightarrow>
             if sz > max_size then image_reply e s
             else if \<not> allowed_mime mime then image_reply e s
             else if \<not> allowed_name file_name then image_reply e s
             else if answers e GetFile \<and> answers e Forward
               then image_reply e (set_candidate ''profileImageUrl'' (Some path) s)
               else image_failed e s
         | NoMedia \<Rightarrow> image_reply e s))"

text \<open>\<open>handle_profile_image_choice\<close> (bot.py, lines 790-803).\<close>

definition handle_profile_image_choice ::
  "env \<Rightarrow> int \<Rightarrow> string \<Rightarrow> session \<Rightarrow> session \<times> ret" where
  "handle_profile_image_choice e chat data s0 =
     (let s = s0\<lparr>chat_id := Some chat\<rparr> in
      if data = ''continue_professional'' then
        (s\<lparr>current_field := Some ''work_jobTitle'', current_work_experience := []\<rparr>,
         prompted (answers e Prompt) COLLECT_PROFESSIONAL_INFO)
      else (s, Return None))"

text \<open>
  \<open>collect_professional_info\<close> (bot.py, lines 805-847).  The last field appends a copy
  of the draft item to the sequence and empties the draft.
\<close>

definition collect_professional_info ::
  "env \<Rightarrow> int \<Rightarrow> string \<Rightarrow> session \<Rightarrow> session \<times> ret" where
  "collect_professional_info e chat text s0 =
     (let s = s0\<lparr>chat_id := Some chat\<rparr> in
      if current_field s = Some ''work_jobTitle'' then
        (if is_skip text then
           (s\<lparr>workExperiences := [], current_field := Some ''edu_degreeName'',
              current_education := []\<rparr>,
            prompted (answers e Prompt) COLLECT_EDUCATION)
         else
           (s\<lparr>current_work_experience := setitem ''jobTitle'' (Some text) (current_work_experience s),
              current_field := Some ''work_companyName''\<rparr>,
            prompted (answers e Prompt) COLLECT_PROFESSIONAL_INFO))
      else if current_field s = Some ''work_companyName'' then
        (s\<lparr>current_work_experience := setitem ''companyName'' (Some text) (current_work_experience s),
           current_field := Some ''work_location''\<rparr>,
         prompted (answers e Prompt) COLLECT_PROFESSIONAL_INFO)
      else if current_field s = Some ''work_location'' then
        (s\<lparr>current_work_experience := setitem ''location'' (Some text) (current_work_experience s),
           current_field := Some ''work_description''\<rparr>,
         prompted (answers e Prompt) COLLECT_PROFESSIONAL_INFO)
      else if current_field s = Some ''work_description'' then
        (s\<lparr>workExperiences :=
             workExperiences s @ [setitem ''description'' (Some text) (current_work_experience s)],
           current_work_experience := []\<rparr>,
         prompted (answers e Prompt) COLLECT_PROFESSIONAL_INFO)
      else (s, Return None))"

text \<open>\<open>handle_professional_info_choice\<close> (bot.py, lines 849-866).\<close>

definition handle_professional_info_choice ::
  "env \<Rightarrow> int \<Rightarrow> string \<Rightarrow> session \<Rightarrow> session \<times> ret" where
  "handle_professional_info_choice e chat data s0 =
     (let s = s0\<lparr>chat_id := Some chat\<rparr> in
      if data = ''add_another_work'' then
        (s\<lparr>current_field := Some ''work_jobTitle''\<rparr>,
         prompted (answers e Prompt) COLLECT_PROFESSIONAL_INFO)
      else if data = ''continue_education'' then
        (s\<lparr>current_field := Some ''edu_degreeName'', current_education := []\<rparr>,
         prompted (answers e Prompt) COLLECT_EDUCATION)
      else (s, Return None))"

text \<open>\<open>collect_education\<close> (bot.py, lines 868-907).\<close>

definition collect_education ::
  "env \<Rightarrow> int \<Rightarrow> string \<Rightarrow> session \<Rightarrow> session \<times> ret" where
  "collect_education e chat text s0 =
     (let s = s0\<lparr>chat_id := Some chat\<rparr> in
      if current_field s = Some ''edu_degreeName'' then
        (s\<lparr>current_education := setitem ''degreeName'' (Some text) (current_education s),
           current_field := Some ''edu_institutionName''\<rparr>,
         prompted (answers e Prompt) COLLECT_EDUCATION)
      else if current_field s = Some ''edu_institutionName'' then
        (s\<lparr>current_education := setitem ''institutionName'' (Some text) (current_education s),
           current_field := Some ''edu_gpa''\<rparr>,
         prompted (answers e Prompt) COLLECT_EDUCATION)
      else if current_field s = Some ''edu_gpa'' then
        (s\<lparr>current_education := setitem ''gpa'' (unless_skip text) (current_education s),
           current_field := Some ''edu_description''\<rparr>,
         prompted (answers e Prompt) COLLECT_EDUCATION)
      else if current_field s = Some ''edu_description'' then
        (s\<lparr>current_education := setitem ''description'' (Some text) (current_education s),
           current_field := Some ''edu_achievementsHonors''\<rparr>,
         prompted (answers e Prompt) COLLECT_EDUCATION)
      else if current_field s = Some ''edu_achievementsHonors'' then
        (s\<lparr>education :=
             education s @ [setitem ''achievementsHonors'' (unless_skip text) (current_education s)],
           current_education := []\<rparr>,
         prompted (answers e Prompt) COLLECT_EDUCATION)
      else (s, Return None))"

text \<open>
  \<open>handle_education_choice\<close> (bot.py, lines 909-925): \<open>continue_skills\<close> empties the
  skills sequence and goes to the career objective.
\<close>

definition handle_education_choice ::
  "env \<Rightarrow> int \<Rightarrow> string \<Rightarrow> session \<Rightarrow> session \<times> ret" where
  "handle_education_choice e chat data s0 =
     (let s = s0\<lparr>chat_id := Some chat\<rparr> in
      if data = ''add_another_edu'' then
        (s\<lparr>current_field := Some ''edu_degreeName''\<rparr>,
         prompted (answers e Prompt) COLLECT_EDUCATION)
      else if data = ''continue_skills'' then
        (s\<lparr>skills := []\<rparr>, prompted (answers e Prompt) COLLECT_CAREER_OBJECTIVE)
      else (s, Return None))"

text \<open>\<open>collect_skills\<close> (bot.py, lines 927-951).\<close>

definition collect_skills ::
  "env \<Rightarrow> int \<Rightarrow> string \<Rightarrow> session \<Rightarrow> session \<times> ret" where
  "collect_skills e chat text s0 =
     (let s = s0\<lparr>chat_id := Some chat\<rparr> in
      if current_field s = Some ''skill_skillName'' then
        (s\<lparr>current_skill := setitem ''skillName'' (Some text) (current_skill s),
           current_field := Some ''skill_proficiency''\<rparr>,
         prompted (answers e Prompt) COLLECT_SKILLS)
      else if current_field s = Some ''skill_proficiency'' then
        (s\<lparr>skills := skills s @ [setitem ''proficiency'' (Some text) (current_skill s)],
           current_skill := []\<rparr>,
         prompted (answers e Prompt) COLLECT_SKILLS)
      else (s, Return None))"

text \<open>\<open>handle_skills_choice\<close> (bot.py, lines 953-968).\<close>

definition handle_skills_choice ::
  "env \<Rightarrow> int \<Rightarrow> string \<Rightarrow> session \<Rightarrow> session \<times> ret" where
  "handle_skills_choice e chat data s0 =
     (let s = s0\<lparr>chat_id := Some chat\<rparr> in
      if data = ''add_another_skill'' then
        (s\<lparr>current_field := Some ''skill_skillName''\<rparr>,
         prompted (answers e Prompt) COLLECT_SKILLS)
      else if data = ''continue_career'' then
        (s, prompted (answers e Prompt) COLLECT_CAREER_OBJECTIVE)
      else (s, Return None))"

text \<open>
  \<open>collect_career_objective\<close> (bot.py, lines 970-985): the prompt is sent before the
  current field is set.
\<close>

definition collect_career_objective ::
  "env \<Rightarrow> int \<Rightarrow> string \<Rightarrow> session \<Rightarrow> session \<times> ret" where
  "collect_career_objective e chat text s0 =
     (let s = s0\<lparr>chat_id := Some chat\<rparr>;
          s1 = (if is_skip text then s
                else s\<lparr>careerObjectives := careerObjectives s @ [[(''summaryText'', Some text)]]\<rparr>)
      in
      if answers e Prompt then
        (s1\<lparr>current_field := Some ''cert_certificateName'', current_certification := []\<rparr>,
         Return (Some COLLECT_CERTIFICATIONS))
      else (s1, Raise))"

text \<open>\<open>collect_certifications\<close> (bot.py, lines 987-1020).\<close>

definition collect_certifications ::
  "env \<Rightarrow> int \<Rightarrow> string \<Rightarrow> session \<Rightarrow> session \<times> ret" where
  "collect_certifications e chat text s0 =
     (let s = s0\<lparr>chat_id := Some chat\<rparr> in
      if current_field s = Some ''cert_certificateName'' then
        (if is_skip text then (s, prompted (answers e Prompt) COLLECT_CERTIFICATIONS)
         else
           (s\<lparr>current_certification :=
                setitem ''certificateName'' (Some text) (current_certification s),
              current_field := Some ''cert_issuer''\<rparr>,
            prompted (answers e Prompt) COLLECT_CERTIFICATIONS))
      else if current_field s = Some ''cert_issuer'' then
        (s\<lparr>certificationsAwards :=
             certificationsAwards s @ [setitem ''issuer'' (Some text) (current_certification s)],
           current_certification := []\<rparr>,
         prompted (answers e Prompt) COLLECT_CERTIFICATIONS)
      else (s, Return None))"

text \<open>\<open>handle_certifications_choice\<close> (bot.py, lines 1022-1039).\<close>

definition handle_certifications_choice ::
  "env \<Rightarrow> int \<Rightarrow> string \<Rightarrow> session \<Rightarrow> session \<times> ret" where
  "handle_certifications_choice e chat data s0 =
     (let s = s0\<lparr>chat_id := Some chat\<rparr> in
      if data = ''add_another_cert'' then
        (s\<lparr>current_field := Some ''cert_certificateName''\<rparr>,
         prompted (answers e Prompt) COLLECT_CERTIFICATIONS)
      else if data = ''continue_projects'' then
        (s\<lparr>current_field := Some ''project_projectTitle'', current_project := []\<rparr>,
         prompted (answers e Prompt) COLLECT_PROJECTS)
      else (s, Return None))"

text \<open>
  \<open>collect_projects\<close> (bot.py, lines 1041-1071): the link is written into the draft
  only when the text is not the sentinel.
\<close>

definition collect_projects ::
  "env \<Rightarrow> int \<Rightarrow> string \<Rightarrow> session \<Rightarrow> session \<times> ret" where
  "collect_projects e chat text s0 =
     (let s = s0\<lparr>chat_id := Some chat\<rparr> in
      if current_field s = Some ''project_projectTitle'' then
        (s\<lparr>current_project := setitem ''projectTitle'' (Some text) (current_project s),
           current_field := Some ''project_description''\<rparr>,
         prompted (answers e Prompt) COLLECT_PROJECTS)
      else if current_field s = Some ''project_description'' then
        (s\<lparr>current_project := setitem ''description'' (Some text) (current_project s),
           current_field := Some ''project_projectLink''\<rparr>,
         prompted (answers e Prompt) COLLECT_PROJECTS)
      else if current_field s = Some ''project_projectLink'' then
        (s\<lparr>projects :=
             projects s @
               [if is_skip text then current_project s
                else setitem ''projectLink'' (Some text) (current_project s)],
           current_project := []\<rparr>,
         prompted (answers e Prompt) COLLECT_PROJECTS)
      else (s, Return None))"

text \<open>\<open>handle_projects_choice\<close> (bot.py, lines 1073-1090).\<close>

definition handle_projects_choice ::
  "env \<Rightarrow> int \<Rightarrow> string \<Rightarrow> session \<Rightarrow> session \<times> ret" where
  "handle_projects_choice e chat data s0 =
     (let s = s0\<lparr>chat_id := Some chat\<rparr> in
      if data = ''add_another_project'' then
        (s\<lparr>current_field := Some ''project_projectTitle''\<rparr>,
         prompted (answers e Prompt) COLLECT_PROJECTS)
      else if data = ''continue_languages'' then
        (s\<lparr>current_field := Some ''lang_languageName'', current_language := []\<rparr>,
         prompted (answers e Prompt) COLLECT_LANGUAGES)
      else (s, Return None))"

text \<open>\<open>collect_languages\<close> (bot.py, lines 1092-1116).\<close>

definition collect_languages ::
  "env \<Rightarrow> int \<Rightarrow> string \<Rightarrow> session \<Rightarrow> session \<times> ret" where
  "collect_languages e chat text s0 =
     (let s = s0\<lparr>chat_id := Some chat\<rparr> in
      if current_field s = Some ''lang_languageName'' then
        (s\<lparr>current_language := setitem ''languageName'' (Some text) (current_language s),
           current_field := Some ''lang_proficiencyLevel''\<rparr>,
         prompted (answers e Prompt) COLLECT_LANGUAGES)
      else if current_field s = Some ''lang_proficiencyLevel'' then
        (s\<lparr>languages :=
             languages s @ [setitem ''proficiencyLevel'' (Some text) (current_language s)],
           current_language := []\<rparr>,
         prompted (answers e Prompt) COLLECT_LANGUAGES)
      else (s, Return None))"

text \<open>\<open>handle_languages_choice\<close> (bot.py, lines 1118-1133).\<close>

definition handle_languages_choice ::
  "env \<Rightarrow> int \<Rightarrow> string \<Rightarrow> session \<Rightarrow> session \<times> ret" where
  "handle_languages_choice e chat data s0 =
     (let s = s0\<lparr>chat_id := Some chat\<rparr> in
      if data = ''add_another_language'' then
        (s\<lparr>current_field := Some ''lang_languageName''\<rparr>,
         prompted (answers e Prompt) COLLECT_LANGUAGES)
      else if data = ''continue_activities'' then
        (s, prompted (answers e Prompt) COLLECT_ACTIVITIES)
      else (s, Return None))"

text \<open>
  \<open>collect_activities\<close> (bot.py, lines 1135-1201); the summary it sends is built with
  \<open>dict.get\<close> and defaults only, and the identity of the summary message is kept.
\<close>

definition collect_activities ::
  "env \<Rightarrow> int \<Rightarrow> string \<Rightarrow> session \<Rightarrow> session \<times> ret" where
  "collect_activities e chat text s0 =
     (let s = s0\<lparr>chat_id := Some chat\<rparr>;
          s1 = (if is_skip text then s
                else s\<lparr>otherActivities :=
                         otherActivities s @
                           [[(''activityType'', Some ''Other''), (''description'', Some text)]]\<rparr>)
      in
      if answers e Prompt
      then (s1\<lparr>summary_message_id := Some (sent_id e)\<rparr>, Return (Some CONFIRM_ORDER))
      else (s1, Raise))"

text \<open>
  The dictionary that \<open>edit_no\<close> puts in the session's place (bot.py, lines 1339-1358
  and 1376-1395): language and chat are kept, everything else is as in a new session,
  and the current field is the first name.
\<close>

definition restarted :: "session \<Rightarrow> session" where
  "restarted s =
     new_session\<lparr>language := language s, chat_id := chat_id s,
                 current_field := Some ''firstName''\<rparr>"

text \<open>
  The saving of one sequence in \<open>confirm_order\<close> (bot.py, lines 1263-1301): each item
  gets its \<open>candidate_uid\<close> and is saved, then a log line is written.  \<open>n\<close> saves
  still return; \<open>logs\<close> says whether the log line of an item can be evaluated.  The
  result is the sequence as the loop leaves it, and the saves left, or \<open>None\<close> when
  the loop raised.
\<close>

fun tag_items ::
  "string \<Rightarrow> (pydict \<Rightarrow> bool) \<Rightarrow> pydict list \<Rightarrow> nat \<Rightarrow> pydict list \<times> nat option" where
  "tag_items uid logs [] n = ([], Some n)"
| "tag_items uid logs (x # xs) 0 = (setitem ''candidate_uid'' (Some uid) x # xs, None)"
| "tag_items uid logs (x # xs) (Suc m) =
     (if logs x then
        (case tag_items uid logs xs m of
           (ys, r) \<Rightarrow> (setitem ''candidate_uid'' (Some uid) x # ys, r))
      else (setitem ''candidate_uid'' (Some uid) x # xs, None))"

text \<open>\<open>item.get(key)[:50]\<close> needs a string.\<close>

definition has_text :: "string \<Rightarrow> pydict \<Rightarrow> bool" where
  "has_text k item =
     (case map_of item k of None \<Rightarrow> False | Some None \<Rightarrow> False | Some (Some t) \<Rightarrow> True)"

definition tag_section ::
  "(session \<Rightarrow> pydict list) \<Rightarrow> (pydict list \<Rightarrow> session \<Rightarrow> session) \<Rightarrow> (pydict \<Rightarrow> bool) \<Rightarrow>
   string \<Rightarrow> session \<times> nat option \<Rightarrow> session \<times> nat option" where
  "tag_section getf setf logs uid st =
     (case snd st of
        None \<Rightarrow> st
      | Some n \<Rightarrow>
          (case tag_items uid logs (getf (fst st)) n of (xs, r) \<Rightarrow> (setf xs (fst st), r)))"

definition save_sections :: "string \<Rightarrow> nat \<Rightarrow> session \<Rightarrow> session \<times> nat option" where
  "save_sections uid n s =
     tag_section otherActivities (\<lambda>v s. s\<lparr>otherActivities := v\<rparr>) (has_text ''description'') uid
      (tag_section languages (\<lambda>v s. s\<lparr>languages := v\<rparr>) (\<lambda>x. True) uid
       (tag_section projects (\<lambda>v s. s\<lparr>projects := v\<rparr>) (\<lambda>x. True) uid
        (tag_section certificationsAwards (\<lambda>v s. s\<lparr>certificationsAwards := v\<rparr>) (\<lambda>x. True) uid
         (tag_section careerObjectives (\<lambda>v s. s\<lparr>careerObjectives := v\<rparr>)
            (has_text ''summaryText'') uid
          (tag_section skills (\<lambda>v s. s\<lparr>skills := v\<rparr>) (\<lambda>x. True) uid
           (tag_section education (\<lambda>v s. s\<lparr>education := v\<rparr>) (\<lambda>x. True) uid
            (tag_section workExperiences (\<lambda>v s. s\<lparr>workExperiences := v\<rparr>) (\<lambda>x. True) uid
              (s, Some n))))))))"

text \<open>
  \<open>confirm_order\<close> (bot.py, lines 1203-1360).  \<open>db_ok\<close> stands for the look-up and
  the save of the candidate and the clearing of the stored sub-items; the order is
  created in \<open>awaiting_payment\<close>, the session gets its identity and
  \<open>notified = False\<close>.
\<close>

definition confirm_order :: "env \<Rightarrow> string \<Rightarrow> int \<Rightarrow> string \<Rightarrow> bot \<Rightarrow> bot \<times> ret" where
  "confirm_order e tid chat data b =
     (if answers e Ack then
        (let got = get_user_session tid (user_sessions b);
             s1 = (snd got)\<lparr>chat_id := Some chat\<rparr>;
             put = (\<lambda>s. b\<lparr>user_sessions := AList.update tid s (fst got)\<rparr>)
         in
         if data = ''confirm_yes'' then
           (if answers e Saving then
              (let s2 = s1\<lparr>saving_message_id := Some (saving_id e)\<rparr>;
                   s3 = (case summary_message_id s2 of
                           None \<Rightarrow> s2
                         | Some m \<Rightarrow>
                             if answers e Delete then s2\<lparr>summary_message_id := None\<rparr> else s2)
               in
               if db_ok e then
                 (let uid = (case candidate e of None \<Rightarrow> fresh_uid e | Some (u, cd) \<Rightarrow> u) in
                  case save_sections uid (saves e) s3 of
                    (s4, None) \<Rightarrow> (put s4, Raise)
                  | (s4, Some n) \<Rightarrow>
                      if order_saved e then
                        (let ord = \<lparr>candidateId = uid, telegramUserId = tid,
                                    status = awaiting_payment, statusDetails = None,
                                    paymentScreenshotUrl = None, createdAt = clock e\<rparr>;
                             s5 = s4\<lparr>order_id := Some (fresh_oid e), notified := Some False\<rparr>;
                             s6 = (if answers e Unsave then s5\<lparr>saving_message_id := None\<rparr>
                                   else s5);
                             s7 = s6\<lparr>from_main_flow := Some True\<rparr>
                         in ((put s7)\<lparr>orders := AList.update (fresh_oid e) ord (orders b)\<rparr>,
                             prompted (answers e Prompt) PAYMENT))
                      else (put s4, Raise))
               else (put s3, Raise))
            else (put s1, Raise))
         else if data = ''edit_no'' then
           (put (restarted s1), prompted (answers e Prompt) COLLECT_PERSONAL_INFO)
         else (put s1, Return None))
      else (b, Raise))"

text \<open>\<open>edit_info\<close> (bot.py, lines 1362-1452).\<close>

definition edit_info :: "env \<Rightarrow> int \<Rightarrow> string \<Rightarrow> session \<Rightarrow> session \<times> ret" where
  "edit_info e chat data s0 =
     (let s = s0\<lparr>chat_id := Some chat\<rparr> in
      if data = ''edit_no'' then
        (restarted s, prompted (answers e Prompt) COLLECT_PERSONAL_INFO)
      else if data = ''edit_personal'' then
        (s\<lparr>current_field := Some ''firstName''\<rparr>,
         prompted (answers e Prompt) COLLECT_PERSONAL_INFO)
      else if data = ''edit_contact'' then
        (s\<lparr>current_field := Some ''phoneNumber''\<rparr>,
         prompted (answers e Prompt) COLLECT_CONTACT_INFO)
      else if data = ''edit_profile_image'' then
        (s\<lparr>current_field := None\<rparr>, prompted (answers e Prompt) COLLECT_PROFILE_IMAGE)
      else if data = ''edit_work'' then
        (s\<lparr>workExperiences := [], current_field := Some ''work_jobTitle''\<rparr>,
         prompted (answers e Prompt) COLLECT_PROFESSIONAL_INFO)
      else if data = ''edit_education'' then
        (s\<lparr>education := [], current_field := Some ''edu_degreeName'', current_education := []\<rparr>,
         prompted (answers e Prompt) COLLECT_EDUCATION)
      else if data = ''edit_skills'' then
        (s\<lparr>skills := [], current_field := Some ''skill_skillName'', current_skill := []\<rparr>,
         prompted (answers e Prompt) COLLECT_SKILLS)
      else if data = ''edit_career'' then
        (s\<lparr>careerObjectives := []\<rparr>, prompted (answers e Prompt) COLLECT_CAREER_OBJECTIVE)
      else if data = ''edit_certs'' then
        (s\<lparr>certificationsAwards := [], current_field := Some ''cert_certificateName'',
           current_certification := []\<rparr>,
         prompted (answers e Prompt) COLLECT_CERTIFICATIONS)
      else if data = ''edit_projects'' then
        (s\<lparr>projects := [], current_field := Some ''project_projectTitle'',
           current_project := []\<rparr>,
         prompted (answers e Prompt) COLLECT_PROJECTS)
      else if data = ''edit_languages'' then
        (s\<lparr>languages := [], current_field := Some ''lang_languageName'',
           current_language := []\<rparr>,
         prompted (answers e Prompt) COLLECT_LANGUAGES)
      else if data = ''edit_activities'' then
        (s\<lparr>otherActivities := []\<rparr>, prompted (answers e Prompt) COLLECT_ACTIVITIES)
      else (s, Return None))"

section \<open>Payment evidence and the retry command\<close>

text \<open>
  The caption \<open>handle_payment_screenshot\<close> gives the evidence it forwards to the
  channel (bot.py, lines 1466-1478, 1497-1502 and 1524-1529): the header with the kind
  of upload and the retry mark, and the user's name, identity, order and phone number,
  each after its emoji.
\<close>

definition evidence_caption ::
  "string \<Rightarrow> bool \<Rightarrow> string \<Rightarrow> string \<Rightarrow> string \<Rightarrow> string \<Rightarrow> string" where
  "evidence_caption kind retry who tid oid phone =
     payment_prefix @ '' '' @ kind @ '' Received'' @ (if retry then '' (RETRY)'' else []) @
     [CHR 0x0A, CHR 0x0A] @
     [CHR 0xF0, CHR 0x9F, CHR 0x91, CHR 0xA4] @ '' User: '' @ who @ [CHR 0x0A] @
     [CHR 0xF0, CHR 0x9F, CHR 0x86, CHR 0x94] @ '' User ID: '' @ tid @ [CHR 0x0A] @
     [CHR 0xF0, CHR 0x9F, CHR 0x93, CHR 0x8B] @ '' Order ID: '' @ oid @ [CHR 0x0A] @
     [CHR 0xF0, CHR 0x9F, CHR 0x93, CHR 0x9E] @ '' Phone: '' @ phone"

text \<open>How an f-string prints \<open>candidate_data.get('phoneNumber', 'N/A')\<close>.\<close>

definition phone_text :: "pydict \<Rightarrow> string" where
  "phone_text cd =
     (case map_of cd ''phoneNumber'' of
        None \<Rightarrow> ''N/A''
      | Some None \<Rightarrow> ''None''
      | Some (Some p) \<Rightarrow> p)"

definition phone_missing :: "pydict \<Rightarrow> bool" where
  "phone_missing cd =
     (case map_of cd ''phoneNumber'' of
        None \<Rightarrow> True
      | Some None \<Rightarrow> True
      | Some (Some p) \<Rightarrow> p = [])"

text \<open>
  \<open>handle_payment_screenshot\<close> (bot.py, lines 1454-1555).  Everything is inside one
  \<open>try\<close>; its \<open>except\<close> clause sends the error message and stays in \<open>PAYMENT\<close>.
\<close>

definition payment_failed :: "env \<Rightarrow> bot \<Rightarrow> bot \<times> ret" where
  "payment_failed e b = (b, prompted (answers e ErrorPrompt) PAYMENT)"

definition payment_reply :: "env \<Rightarrow> conv_state \<Rightarrow> bot \<Rightarrow> bot \<times> ret" where
  "payment_reply e st b =
     (if answers e Prompt then (b, Return (Some st)) else payment_failed e b)"

text \<open>
  The part after the upload has been forwarded: the order is fetched, gets the file's
  path and the state \<open>pending_verification\<close>, and is saved.
\<close>

definition record_evidence :: "env \<Rightarrow> string \<Rightarrow> string \<Rightarrow> bot \<Rightarrow> bot \<times> ret" where
  "record_evidence e oid path b =
     (if db_ok e then
        (case map_of (orders b) oid of
           None \<Rightarrow> payment_reply e PAYMENT b
         | Some ord \<Rightarrow>
             payment_reply e END
               (b\<lparr>orders :=
                    AList.update oid
                      (update_status pending_verification
                         ''Payment screenshot submitted, awaiting admin verification''
                         (ord\<lparr>paymentScreenshotUrl := Some path\<rparr>))
                      (orders b)\<rparr>))
      else payment_failed e b)"

definition handle_payment_screenshot ::
  "env \<Rightarrow> string \<Rightarrow> int \<Rightarrow> string \<Rightarrow> media \<Rightarrow> bot \<Rightarrow> bot \<times> ret" where
  "handle_payment_screenshot e tid chat who upload b =
     (let got = get_user_session tid (user_sessions b);
          s1 = (snd got)\<lparr>chat_id := Some chat\<rparr>;
          put = (\<lambda>s. b\<lparr>user_sessions := AList.update tid s (fst got)\<rparr>)
      in
      if phone_missing (candidate_data s1) \<and> \<not> db_ok e then payment_failed e (put s1)
      else
        (let s2 = (if phone_missing (candidate_data s1)
                   then (case candidate e of
                           None \<Rightarrow> s1
                         | Some (u, cd) \<Rightarrow> s1\<lparr>candidate_data := cd\<rparr>)
                   else s1);
             b2 = put s2
         in
         case order_id s2 of
           None \<Rightarrow> payment_failed e b2
         | Some oid \<Rightarrow>
             (let retry = (oid \<noteq> [] \<and> from_main_flow s2 \<noteq> Some True);
                  cap = (\<lambda>kind. evidence_caption kind retry who tid oid
                                  (phone_text (candidate_data s2)))
              in
              case upload of
                Photo sz path \<Rightarrow>
                  if answers e GetFile then
                    (if sz > max_size then payment_reply e PAYMENT b2
                     else if answers e Forward
                       then record_evidence e oid path (emit (Evidence (cap ''Screenshot'')) b2)
                       else payment_failed e b2)
                  else payment_failed e b2
              | Document sz mime file_name path \<Rightarrow>
                  if sz > max_size then payment_reply e PAYMENT b2
                  else if \<not> allowed_mime mime then payment_reply e PAYMENT b2
                  else if \<not> allowed_name file_name then payment_reply e PAYMENT b2
                  else if answers e GetFile \<and> answers e Forward
                    then record_evidence e oid path (emit (Evidence (cap ''Document'')) b2)
                    else payment_failed e b2
              | NoMedia \<Rightarrow> payment_reply e PAYMENT b2)))"

text \<open>
  \<open>get_rejected_order_for_user\<close> (bot.py, lines 1711-1756): the user's rejected orders
  in the store, the most recent first (a stable sort, so the first of the most recent
  ones); \<open>None\<close> when there is none or the query raised.
\<close>

definition most_recent :: "(string \<times> order) \<Rightarrow> (string \<times> order) list \<Rightarrow> string \<times> order" where
  "most_recent x xs =
     foldl (\<lambda>best y. if createdAt (snd y) > createdAt (snd best) then y else best) x xs"

definition get_rejected_order_for_user ::
  "bool \<Rightarrow> string \<Rightarrow> orders \<Rightarrow> (string \<times> order) option" where
  "get_rejected_order_for_user queried tid store =
     (if queried then
        (case filter (\<lambda>p. telegramUserId (snd p) = tid \<and> status (snd p) = rejected) store of
           [] \<Rightarrow> None
         | x # xs \<Rightarrow> Some (most_recent x xs))
      else None)"

text \<open>
  \<open>handle_payment_command\<close> (bot.py, lines 1655-1707), the \<open>/payment\<close> command.  The
  candidate is loaded inside a \<open>try\<close> of its own: a look-up that raises and one that
  finds nothing both leave the session's data alone.
\<close>

definition handle_payment_command :: "env \<Rightarrow> string \<Rightarrow> int \<Rightarrow> bot \<Rightarrow> bot \<times> ret" where
  "handle_payment_command e tid chat b =
     (let got = get_user_session tid (user_sessions b);
          s1 = (snd got)\<lparr>chat_id := Some chat\<rparr>;
          put = (\<lambda>s. b\<lparr>user_sessions := AList.update tid s (fst got)\<rparr>)
      in
      case get_rejected_order_for_user (db_ok e) tid (orders b) of
        None \<Rightarrow> (put s1, prompted (answers e Prompt) END)
      | Some (oid, ord) \<Rightarrow>
          (let s2 = (case candidate e of
                       None \<Rightarrow> s1
                     | Some (u, cd) \<Rightarrow> s1\<lparr>candidate_data := cd\<rparr>);
               s3 = s2\<lparr>order_id := Some oid, notified := Some False,
                       from_main_flow := Some False\<rparr>
           in (put s3, prompted (answers e Prompt) PAYMENT)))"

text \<open>
  \<open>cancel\<close> (bot.py, lines 1829-1850): the session is removed from the table, then
  the goodbye is sent.
\<close>

definition cancel :: "env \<Rightarrow> string \<Rightarrow> bot \<Rightarrow> bot \<times> ret" where
  "cancel e tid b =
     (let got = get_user_session tid (user_sessions b) in
      (b\<lparr>user_sessions := AList.delete tid (fst got)\<rparr>, prompted (answers e Prompt) END))"

text \<open>\<open>help_command\<close> and \<open>error_handler\<close> (bot.py, lines 1852-1867) only make sure the
  user has a session and send a message.\<close>

definition help_command :: "env \<Rightarrow> string \<Rightarrow> bot \<Rightarrow> bot \<times> ret" where
  "help_command e tid b =
     (b\<lparr>user_sessions := fst (get_user_session tid (user_sessions b))\<rparr>,
      if answers e Prompt then Return None else Raise)"

definition error_handler :: "env \<Rightarrow> string option \<Rightarrow> bot \<Rightarrow> bot \<times> ret" where
  "error_handler e who b =
     (case who of
        None \<Rightarrow> (b, Return None)
      | Some tid \<Rightarrow> help_command e tid b)"

section \<open>The registration of the handlers\<close>

text \<open>
  An update: a message (sender, chat, text if any, upload, the sender's displayed
  name), a callback query (sender, chat, data) or a command (sender, chat, name).
\<close>

datatype update =
    Message string int "string option" media string
  | Callback string int string
  | Command string int string

datatype handler =
    H_start | H_select_language | H_start_collecting_info | H_handle_returning_user_choice
  | H_collect_personal_info | H_collect_contact_info | H_collect_profile_image
  | H_handle_profile_image_choice | H_collect_professional_info
  | H_handle_professional_info_choice | H_collect_education | H_handle_education_choice
  | H_collect_skills | H_handle_skills_choice | H_collect_career_objective
  | H_collect_certifications | H_handle_certifications_choice | H_collect_projects
  | H_handle_projects_choice | H_collect_languages | H_handle_languages_choice
  | H_collect_activities | H_confirm_order | H_edit_info | H_handle_payment_screenshot
  | H_cancel | H_handle_payment_command






text \<open>
  A handler called with an update.  The registration passes text handlers a message
  with text, choice handlers a callback query, and so on; for an update of another
  kind the first access to the missing part raises.
\<close>

definition with_text ::
  "update \<Rightarrow> (string \<Rightarrow> int \<Rightarrow> string \<Rightarrow> bot \<Rightarrow> bot \<times> ret) \<Rightarrow> bot \<Rightarrow> bot \<times> ret" where
  "with_text upd h b =
     (case upd of
        Message t c x m w \<Rightarrow> (case x of None \<Rightarrow> (b, Raise) | Some txt \<Rightarrow> h t c txt b)
      | Callback t c d \<Rightarrow> (b, Raise)
      | Command t c n \<Rightarrow> (b, Raise))"

definition with_data ::
  "update \<Rightarrow> (string \<Rightarrow> int \<Rightarrow> string \<Rightarrow> bot \<Rightarrow> bot \<times> ret) \<Rightarrow> bot \<Rightarrow> bot \<times> ret" where
  "with_data upd h b =
     (case upd of
        Message t c x m w \<Rightarrow> (b, Raise)
      | Callback t c d \<Rightarrow> h t c d b
      | Command t c n \<Rightarrow> (b, Raise))"

definition invoke :: "handler \<Rightarrow> env \<Rightarrow> update \<Rightarrow> bot \<Rightarrow> bot \<times> ret" where
  "invoke h e upd b =
     (case h of
        H_start \<Rightarrow>
          (case upd of
             Message t c x m w \<Rightarrow> (b, Raise)
           | Callback t c d \<Rightarrow> (b, Raise)
           | Command t c n \<Rightarrow> on_session t (start e c) b)
      | H_select_language \<Rightarrow>
          with_data upd (\<lambda>t c d. on_query e t (select_language e c d)) b
      | H_start_collecting_info \<Rightarrow>
          with_data upd (\<lambda>t c d. on_query e t (start_collecting_info e c d)) b
      | H_handle_returning_user_choice \<Rightarrow>
          with_data upd (\<lambda>t c d. on_query e t (handle_returning_user_choice e c d)) b
      | H_collect_personal_info \<Rightarrow>
          with_text upd (\<lambda>t c x. on_session t (collect_personal_info e c x)) b
      | H_collect_contact_info \<Rightarrow>
          with_text upd (\<lambda>t c x. on_session t (collect_contact_info e c x)) b
      | H_collect_profile_image \<Rightarrow>
          (case upd of
             Message t c x m w \<Rightarrow> on_session t (collect_profile_image e c x m) b
           | Callback t c d \<Rightarrow> (b, Raise)
           | Command t c n \<Rightarrow>
               on_session t (collect_profile_image e c (Some (CHR ''/'' # n)) NoMedia) b)
      | H_handle_profile_image_choice \<Rightarrow>
          with_data upd (\<lambda>t c d. on_query e t (handle_profile_image_choice e c d)) b
      | H_collect_professional_info \<Rightarrow>
          with_text upd (\<lambda>t c x. on_session t (collect_professional_info e c x)) b
      | H_handle_professional_info_choice \<Rightarrow>
          with_data upd (\<lambda>t c d. on_query e t (handle_professional_info_choice e c d)) b
      | H_collect_education \<Rightarrow>
          with_text upd (\<lambda>t c x. on_session t (collect_education e c x)) b
      | H_handle_education_choice \<Rightarrow>
          with_data upd (\<lambda>t c d. on_query e t (handle_education_choice e c d)) b
      | H_collect_skills \<Rightarrow>
          with_text upd (\<lambda>t c x. on_session t (collect_skills e c x)) b
      | H_handle_skills_choice \<Rightarrow>
          with_data upd (\<lambda>t c d. on_query e t (handle_skills_choice e c d)) b
      | H_collect_career_objective \<Rightarrow>
          with_text upd (\<lambda>t c x. on_session t (collect_career_objective e c x)) b
      | H_collect_certifications \<Rightarrow>
          with_text upd (\<lambda>t c x. on_session t (collect_certifications e c x)) b
      | H_handle_certifications_choice \<Rightarrow>
          with_data upd (\<lambda>t c d. on_query e t (handle_certifications_choice e c d)) b
      | H_collect_projects \<Rightarrow>
          with_text upd (\<lambda>t c x. on_session t (collect_projects e c x)) b
      | H_handle_projects_choice \<Rightarrow>
          with_data upd (\<lambda>t c d. on_query e t (handle_projects_choice e c d)) b
      | H_collect_languages \<Rightarrow>
          with_text upd (\<lambda>t c x. on_session t (collect_languages e c x)) b
      | H_handle_languages_choice \<Rightarrow>
          with_data upd (\<lambda>t c d. on_query e t (handle_languages_choice e c d)) b
      | H_collect_activities \<Rightarrow>
          with_text upd (\<lambda>t c x. on_session t (collect_activities e c x)) b
      | H_confirm_order \<Rightarrow> with_data upd (confirm_order e) b
      | H_edit_info \<Rightarrow>
          with_data upd (\<lambda>t c d. on_query e t (edit_info e c d)) b
      | H_handle_payment_screenshot \<Rightarrow>
          (case upd of
             Message t c x m w \<Rightarrow> handle_payment_screenshot e t c w m b
           | Callback t c d \<Rightarrow> (b, Raise)
           | Command t c n \<Rightarrow> (b, Raise))
      | H_cancel \<Rightarrow>
          (case upd of
             Message t c x m w \<Rightarrow> (b, Raise)
           | Callback t c d \<Rightarrow> (b, Raise)
           | Command t c n \<Rightarrow> cancel e t b)
      | H_handle_payment_command \<Rightarrow>
          (case upd of
             Message t c x m w \<Rightarrow> (b, Raise)
           | Callback t c d \<Rightarrow> (b, Raise)
           | Command t c n \<Rightarrow> handle_payment_command e t c b))"

text \<open>
  One update in a conversation that is in state \<open>cs\<close>: the state's handler runs, and
  the conversation moves to the state it returns; it stays where it is when no handler
  accepts the update, when the handler returns \<open>None\<close> and when the handler raises.
\<close>

definition lands :: "conv_state \<Rightarrow> ret \<Rightarrow> conv_state" where
  "lands cs r = (case r of Return None \<Rightarrow> cs | Return (Some st) \<Rightarrow> st | Raise \<Rightarrow> cs)"



definition session_of :: "string \<Rightarrow> bot \<Rightarrow> session" where
  "session_of tid b = snd (get_user_session tid (user_sessions b))"

section \<open>Everything that can happen to the bot\<close>

text \<open>
  A call of a conversation handler (whatever the state of the conversation), of the
  help command or of the error handler, a tick of the poller, an admin reply, an admin
  button, and a private message that \<open>cache_user_info\<close> sees.
\<close>

datatype event =
    Call handler env update
  | Help env string
  | Failure env "string option"
  | Tick tick_env
  | Reply int bool bool "admin_msg option"
  | Button response_env string
  | Seen "tg_user option"

fun apply_event :: "event \<Rightarrow> bot \<Rightarrow> bot" where
  "apply_event (Call h e upd) b = fst (invoke h e upd b)"
| "apply_event (Help e tid) b = fst (help_command e tid b)"
| "apply_event (Failure e who) b = fst (error_handler e who b)"
| "apply_event (Tick env) b = fst (poll_tick env b)"
| "apply_event (Reply channel fetched sent upd) b = handle_admin_reply channel fetched sent upd b"
| "apply_event (Button env data) b = fst (handle_admin_response env data b)"
| "apply_event (Seen u) b = b\<lparr>user_cache := cache_user_info u (user_cache b)\<rparr>"

fun run_events :: "event list \<Rightarrow> bot \<Rightarrow> bot" where
  "run_events [] b = b"
| "run_events (ev # evs) b = run_events evs (apply_event ev b)"

text \<open>
  The operations after which a user's \<open>notified\<close> flag can be gone or false: the
  confirmation that creates an order, the restart (\<open>edit_no\<close>) that replaces the
  session, \<open>/cancel\<close> that removes it, and \<open>/payment\<close> that takes up a rejected order.
\<close>

definition resets :: "string \<Rightarrow> event \<Rightarrow> bool" where
  "resets tid ev =
     (case ev of
        Call h e upd \<Rightarrow>
          (case upd of
             Message t c x m w \<Rightarrow> False
           | Callback t c d \<Rightarrow>
               t = tid \<and>
               ((h = H_confirm_order \<and> (d = ''confirm_yes'' \<or> d = ''edit_no'')) \<or>
                (h = H_edit_info \<and> d = ''edit_no''))
           | Command t c n \<Rightarrow> t = tid \<and> (h = H_cancel \<or> h = H_handle_payment_command))
      | Help e t \<Rightarrow> False
      | Failure e who \<Rightarrow> False
      | Tick env \<Rightarrow> False
      | Reply channel fetched sent upd \<Rightarrow> False
      | Button env data \<Rightarrow> False
      | Seen u \<Rightarrow> False)"

section \<open>A running example\<close>

text \<open>
  One user (identity and chat 1001) who has confirmed an order \<open>O1\<close> and sent the
  payment evidence: the order awaits verification and nothing has been notified.
\<close>

definition alice :: session where
  "alice = new_session\<lparr>chat_id := Some 1001, order_id := Some ''O1'',
                       notified := Some False, from_main_flow := Some True\<rparr>"

definition order1 :: order where
  "order1 = \<lparr>candidateId = ''c1'', telegramUserId = ''1001'', status = pending_verification,
             statusDetails = Some ''Payment screenshot submitted, awaiting admin verification'',
             paymentScreenshotUrl = Some ''photos/file_1.jpg'', createdAt = 1\<rparr>"

definition bot1 :: bot where
  "bot1 = \<lparr>user_sessions = [(''1001'', alice)], user_cache = [],
           orders = [(''O1'', order1)], outbox = []\<rparr>"

definition admin_says :: "string \<Rightarrow> admin_msg" where
  "admin_says t =
     \<lparr>msg_chat = - 100, msg_text = Some t,
      reply_caption =
        Some (Some (evidence_caption ''Screenshot'' False ''Alice A'' ''1001'' ''O1'' ''0911''))\<rparr>"

text \<open>A second user, with an order of his own.\<close>

definition bob :: session where
  "bob = new_session\<lparr>chat_id := Some 1002, order_id := Some ''O2'',
                     notified := Some False, from_main_flow := Some True\<rparr>"

text \<open>Both orders have been verified (in the store) and neither user has been told.\<close>

definition bot2 :: bot where
  "bot2 = \<lparr>user_sessions = [(''1001'', alice), (''1002'', bob)], user_cache = [],
           orders = [(''O1'', order1\<lparr>status := verified, statusDetails := None\<rparr>),
                     (''O2'', order1\<lparr>telegramUserId := ''1002'', status := verified,
                                     statusDetails := None\<rparr>)],
           outbox = []\<rparr>"

text \<open>An environment in which every external call returns and the store knows nobody.\<close>

definition calm :: env where
  "calm =
     \<lparr>answers = (\<lambda>c. True), sent_id = 7, saving_id = 8, db_ok = True, candidate = None,
      stored = \<lparr>p_workExperiences = [], p_education = [], p_skills = [],
                p_careerObjectives = [], p_certificationsAwards = [], p_projects = [],
                p_languages = [], p_otherActivities = []\<rparr>,
      saves = 100, order_saved = True, fresh_uid = ''c9'', fresh_oid = ''O9'', clock = 2,
      has_video = True, has_samples = True\<rparr>"

text \<open>The first user after the admin has rejected the payment and the user was told.\<close>

definition told :: bot where
  "told = handle_admin_reply (- 100) True True
            (Some (admin_says ''reject: blurry receipt'')) bot1"



text \<open>
  A fourth user, who cancelled after sending the payment evidence and started again:
  the session has a chat and no order, the order \<open>O4\<close> awaits verification, and the
  admin answers its evidence.
\<close>

definition dave :: session where
  "dave = new_session\<lparr>chat_id := Some 1004\<rparr>"

definition bot4 :: bot where
  "bot4 = \<lparr>user_sessions = [(''1004'', dave)], user_cache = [],
           orders = [(''O4'', order1\<lparr>telegramUserId := ''1004''\<rparr>)], outbox = []\<rparr>"

definition admin_answers :: "string \<Rightarrow> admin_msg" where
  "admin_answers t =
     \<lparr>msg_chat = - 100, msg_text = Some t,
      reply_caption =
        Some (Some (evidence_caption ''Screenshot'' False ''Dave D'' ''1004'' ''O4'' ''0914''))\<rparr>"

text \<open>A tick in which nothing raises, and a button press for which every call returns.\<close>

definition quiet :: tick_env where
  "quiet = \<lparr>fetch_raises = (\<lambda>t. False), send_raises = (\<lambda>t. False)\<rparr>"

definition willing :: response_env where
  "willing = \<lparr>ack_ok = True, fetch = FetchReturns, notify_ok = True, caption_ok = True,
              err_caption_ok = True, info_reply_ok = True, final_reply_ok = True\<rparr>"

text \<open>
  Four Telegram clients: one that knows the handle as a private chat, one that knows it
  as a channel and lists three administrators, one that only finds the member, and one
  that finds nothing.
\<close>

definition tg_private :: telegram where
  "tg_private =
     \<lparr>get_chat = (\<lambda>h. if h = ''@alice'' then Gives \<lparr>chat_ident = 7, chat_kind = ''private''\<rparr>
                        else Fails),
      get_chat_administrators = Fails, get_chat_member = (\<lambda>h. Fails)\<rparr>"

definition tg_channel :: telegram where
  "tg_channel =
     \<lparr>get_chat = (\<lambda>h. Gives \<lparr>chat_ident = - 500, chat_kind = ''channel''\<rparr>),
      get_chat_administrators =
        Gives [\<lparr>user_ident = 3, user_name = None\<rparr>, \<lparr>user_ident = 5, user_name = Some ''Bob''\<rparr>,
               \<lparr>user_ident = 7, user_name = Some ''ALICE''\<rparr>],
      get_chat_member = (\<lambda>h. Fails)\<rparr>"

definition tg_member :: telegram where
  "tg_member =
     \<lparr>get_chat = (\<lambda>h. Fails),
      get_chat_administrators = Gives [\<lparr>user_ident = 5, user_name = Some ''Bob''\<rparr>],
      get_chat_member = (\<lambda>h. Gives (Some \<lparr>user_ident = 9, user_name = None\<rparr>))\<rparr>"

definition tg_silent :: telegram where
  "tg_silent =
     \<lparr>get_chat = (\<lambda>h. Fails), get_chat_administrators = Fails,
      get_chat_member = (\<lambda>h. Gives None)\<rparr>"

section \<open>Notions the statements use\<close>

text \<open>An administrator whose handle, lower-cased, is the normalised handle looked for.\<close>

definition handle_matches :: "string \<Rightarrow> tg_user \<Rightarrow> bool" where
  "handle_matches clean a =
     (case user_name a of None \<Rightarrow> False | Some n \<Rightarrow> n \<noteq> [] \<and> lower n = clean)"



text \<open>
  The draft project holds no link: \<open>projectLink\<close> is written by the last step of the
  projects section only, which also empties the draft.
\<close>

definition link_free :: "session \<Rightarrow> bool" where
  "link_free s = (map_of (current_project s) ''projectLink'' = None)"

definition drafts_link_free :: "bot \<Rightarrow> bool" where
  "drafts_link_free b = list_all (\<lambda>p. link_free (snd p)) (user_sessions b)"

text \<open>The \<open>notified\<close> flag of a user's session, \<open>None\<close> when there is no session or no flag.\<close>

definition notified_of :: "string \<Rightarrow> bot \<Rightarrow> bool option" where
  "notified_of tid b =
     (case map_of (user_sessions b) tid of None \<Rightarrow> None | Some s \<Rightarrow> notified s)"

text \<open>The stored order is in the terminal state that the notification announces.\<close>

definition announces :: "notice \<Rightarrow> order \<Rightarrow> bool" where
  "announces n ord =
     (case n of
        PaymentVerified \<Rightarrow> status ord = verified
      | PaymentRejected r \<Rightarrow> status ord = rejected \<and> statusDetails ord = Some r)"

section \<open>Properties\<close>

subsection \<open>Session creation\<close>

text \<open>
  C10.  Session creation is idempotent and has fixed defaults.  The first call of
  \<open>get_user_session\<close> for an identity stores and returns a session with language
  \<open>en\<close>, the eight section sequences empty, the six draft items empty and no current
  field, and leaves every other identity's session alone; a call for an identity that
  has a session returns that session, whatever it has accumulated, and leaves the table
  as it is; so a second call returns what the first returned and changes nothing.
\<close>

theorem get_user_session_idempotent_defaults:
  "(map_of tbl uid = None \<longrightarrow>
      snd (get_user_session uid tbl) = new_session \<and>
      map_of (fst (get_user_session uid tbl)) uid = Some new_session \<and>
      (\<forall>k. k \<noteq> uid \<longrightarrow> map_of (fst (get_user_session uid tbl)) k = map_of tbl k)) \<and>
   language new_session = ''en'' \<and>
   careerObjectives new_session = [] \<and> skills new_session = [] \<and>
   education new_session = [] \<and> languages new_session = [] \<and>
   workExperiences new_session = [] \<and> certificationsAwards new_session = [] \<and>
   otherActivities new_session = [] \<and> projects new_session = [] \<and>
   current_work_experience new_session = [] \<and> current_education new_session = [] \<and>
   current_skill new_session = [] \<and> current_certification new_session = [] \<and>
   current_project new_session = [] \<and> current_language new_session = [] \<and>
   current_field new_session = None \<and>
   (\<forall>s. map_of tbl uid = Some s \<longrightarrow> get_user_session uid tbl = (tbl, s)) \<and>
   get_user_session uid (fst (get_user_session uid tbl)) = get_user_session uid tbl"
proof -
  have fresh: "map_of tbl uid = None \<Longrightarrow>
      get_user_session uid tbl = (AList.update uid new_session tbl, new_session)"
    by (simp add: get_user_session_def)
  have known: "\<And>s. map_of tbl uid = Some s \<Longrightarrow> get_user_session uid tbl = (tbl, s)"
    by (simp add: get_user_session_def)
  have again: "get_user_session uid (fst (get_user_session uid tbl)) = get_user_session uid tbl"
  proof (cases "map_of tbl uid")
    case None
    then show ?thesis
      by (simp add: fresh) (simp add: get_user_session_def update_conv')
  next
    case (Some s)
    then show ?thesis
      by (simp add: known)
  qed
  show ?thesis
    using fresh known again
    by (auto simp: new_session_def update_conv')
qed

theorem get_user_session_idempotent_defaults_witness:
  "map_of ([] :: sessions) ''42'' = None \<and>
   get_user_session ''42'' [] = ([(''42'', new_session)], new_session) \<and>
   get_user_session ''42'' (fst (get_user_session ''42'' [])) = get_user_session ''42'' [] \<and>
   get_user_session ''42'' [(''42'', new_session\<lparr>language := ''am'', skills := [[(''skillName'', Some ''C'')]]\<rparr>)]
     = ([(''42'', new_session\<lparr>language := ''am'', skills := [[(''skillName'', Some ''C'')]]\<rparr>)],
        new_session\<lparr>language := ''am'', skills := [[(''skillName'', Some ''C'')]]\<rparr>)"
  using get_user_session_idempotent_defaults [of "[]" "''42''"]
    get_user_session_idempotent_defaults
      [of "[(''42'', new_session\<lparr>language := ''am'', skills := [[(''skillName'', Some ''C'')]]\<rparr>)]" "''42''"]
  by (simp add: get_user_session_def)

subsection \<open>Username resolution\<close>

text \<open>The scan of the administrators returns the first one whose handle matches.\<close>

lemma find_admin_first_match:
  "find_admin clean admins = map_option user_ident (find (handle_matches clean) admins)"
  by (induction admins) (auto simp: handle_matches_def split: option.splits)

text \<open>
  C8.  \<open>resolve_username_to_id\<close> tries its tiers in a fixed order, on the handle
  without \<open>@\<close> and lower-cased.  A handle in the cache is answered from the cache and
  no external call is made.  Otherwise \<open>get_chat\<close> is asked, and its answer is accepted
  only when the chat is private; when it raises or the chat is of another kind, the
  administrators of the channel are listed and the first whose handle, lower-cased, is
  the handle looked for is taken; when the listing raises or no administrator matches,
  \<open>get_chat_member\<close> is asked, and a member it returns is taken; when that raises too or
  returns nothing, the call raises \<open>ValueError\<close> and the cache is as before.  Each
  success stores the identity in the cache and makes no further call, so that any later
  call for a handle with the same normal form returns it without an external call,
  whatever the client would answer.
\<close>

theorem resolve_username_to_id_tiers:
  "(let k = clean_username u; full = CHR ''@'' # clean_username u in
    (\<forall>i. map_of c k = Some i \<longrightarrow> resolve_username_to_id tg u c = (c, [], Inr i)) \<and>
    (map_of c k = None \<longrightarrow>
       (\<forall>ch. get_chat tg full = Gives ch \<and> chat_kind ch = ''private'' \<longrightarrow>
          resolve_username_to_id tg u c =
            (AList.update k (chat_ident ch) c, [GetChat full], Inr (chat_ident ch))) \<and>
       (get_chat tg full = Fails \<or>
        (\<exists>ch. get_chat tg full = Gives ch \<and> chat_kind ch \<noteq> ''private'') \<longrightarrow>
          (\<forall>admins a. get_chat_administrators tg = Gives admins \<and>
               find (handle_matches k) admins = Some a \<longrightarrow>
             resolve_username_to_id tg u c =
               (AList.update k (user_ident a) c, [GetChat full, GetChatAdministrators],
                Inr (user_ident a))) \<and>
          (get_chat_administrators tg = Fails \<or>
           (\<exists>admins. get_chat_administrators tg = Gives admins \<and>
               find (handle_matches k) admins = None) \<longrightarrow>
             (\<forall>m. get_chat_member tg full = Gives (Some m) \<longrightarrow>
                resolve_username_to_id tg u c =
                  (AList.update k (user_ident m) c,
                   [GetChat full, GetChatAdministrators, GetChatMember full],
                   Inr (user_ident m))) \<and>
             (get_chat_member tg full = Fails \<or> get_chat_member tg full = Gives None \<longrightarrow>
                resolve_username_to_id tg u c =
                  (c, [GetChat full, GetChatAdministrators, GetChatMember full],
                   Inl ValueError))))) \<and>
    (\<forall>c' calls i. resolve_username_to_id tg u c = (c', calls, Inr i) \<longrightarrow>
       map_of c' k = Some i \<and>
       (\<forall>tg' u'. clean_username u' = k \<longrightarrow>
          resolve_username_to_id tg' u' c' = (c', [], Inr i))))"
proof -
  have hit: "\<And>tg' u' c' i. map_of c' (clean_username u') = Some i \<Longrightarrow>
      resolve_username_to_id tg' u' c' = (c', [], Inr i)"
    by (simp add: resolve_username_to_id_def Let_def)
  have stored: "\<And>c' calls i. resolve_username_to_id tg u c = (c', calls, Inr i) \<Longrightarrow>
      map_of c' (clean_username u) = Some i"
    by (auto simp: resolve_username_to_id_def Let_def update_conv' split: option.splits)
  have tiers: "map_of c (clean_username u) = None \<Longrightarrow>
      resolve_username_to_id tg u c =
        (case get_chat tg (CHR ''@'' # clean_username u) of
           Gives ch \<Rightarrow>
             if chat_kind ch = ''private''
             then (AList.update (clean_username u) (chat_ident ch) c,
                   [GetChat (CHR ''@'' # clean_username u)], Inr (chat_ident ch))
             else resolve_username_to_id
                    (tg\<lparr>get_chat := (\<lambda>h. Fails)\<rparr>) u c
         | Fails \<Rightarrow> resolve_username_to_id (tg\<lparr>get_chat := (\<lambda>h. Fails)\<rparr>) u c)"
    by (simp add: resolve_username_to_id_def Let_def via_get_chat_def via_administrators_def
        via_chat_member_def split: api.splits option.splits)
  have rest: "map_of c (clean_username u) = None \<Longrightarrow>
      resolve_username_to_id (tg\<lparr>get_chat := (\<lambda>h. Fails)\<rparr>) u c =
        (case (case get_chat_administrators tg of Fails \<Rightarrow> None
               | Gives admins \<Rightarrow> find (handle_matches (clean_username u)) admins) of
           Some a \<Rightarrow>
             (AList.update (clean_username u) (user_ident a) c,
              [GetChat (CHR ''@'' # clean_username u), GetChatAdministrators], Inr (user_ident a))
         | None \<Rightarrow>
            (case get_chat_member tg (CHR ''@'' # clean_username u) of
               Gives (Some m) \<Rightarrow>
                 (AList.update (clean_username u) (user_ident m) c,
                  [GetChat (CHR ''@'' # clean_username u), GetChatAdministrators,
                   GetChatMember (CHR ''@'' # clean_username u)], Inr (user_ident m))
             | Gives None \<Rightarrow>
                 (c, [GetChat (CHR ''@'' # clean_username u), GetChatAdministrators,
                      GetChatMember (CHR ''@'' # clean_username u)], Inl ValueError)
             | Fails \<Rightarrow>
                 (c, [GetChat (CHR ''@'' # clean_username u), GetChatAdministrators,
                      GetChatMember (CHR ''@'' # clean_username u)], Inl ValueError)))"
    by (simp add: resolve_username_to_id_def Let_def via_get_chat_def via_administrators_def
        via_chat_member_def find_admin_first_match split: api.splits option.splits)
  show ?thesis
    unfolding Let_def
  proof (intro conjI impI allI)
    fix i assume "map_of c (clean_username u) = Some i"
    then show "resolve_username_to_id tg u c = (c, [], Inr i)" by (rule hit)
  next
    fix c' calls i
    assume "resolve_username_to_id tg u c = (c', calls, Inr i)"
    then show "map_of c' (clean_username u) = Some i" by (rule stored)
  next
    fix c' calls i tg' u'
    assume r: "resolve_username_to_id tg u c = (c', calls, Inr i)"
      and same: "clean_username u' = clean_username u"
    from stored [OF r] same have "map_of c' (clean_username u') = Some i" by simp
    then show "resolve_username_to_id tg' u' c' = (c', [], Inr i)" by (rule hit)
  next
    fix ch
    assume "map_of c (clean_username u) = None"
      and "get_chat tg (CHR ''@'' # clean_username u) = Gives ch \<and> chat_kind ch = ''private''"
    then show "resolve_username_to_id tg u c =
        (AList.update (clean_username u) (chat_ident ch) c,
         [GetChat (CHR ''@'' # clean_username u)], Inr (chat_ident ch))"
      by (simp add: tiers)
  next
    fix admins a
    assume m: "map_of c (clean_username u) = None"
      and g: "get_chat tg (CHR ''@'' # clean_username u) = Fails \<or>
        (\<exists>ch. get_chat tg (CHR ''@'' # clean_username u) = Gives ch \<and> chat_kind ch \<noteq> ''private'')"
      and a: "get_chat_administrators tg = Gives admins \<and>
        find (handle_matches (clean_username u)) admins = Some a"
    from m g have "resolve_username_to_id tg u c
        = resolve_username_to_id (tg\<lparr>get_chat := (\<lambda>h. Fails)\<rparr>) u c"
      by (auto simp: tiers)
    with m a show "resolve_username_to_id tg u c =
        (AList.update (clean_username u) (user_ident a) c,
         [GetChat (CHR ''@'' # clean_username u), GetChatAdministrators], Inr (user_ident a))"
      by (simp add: rest)
  next
    fix m
    assume c: "map_of c (clean_username u) = None"
      and g: "get_chat tg (CHR ''@'' # clean_username u) = Fails \<or>
        (\<exists>ch. get_chat tg (CHR ''@'' # clean_username u) = Gives ch \<and> chat_kind ch \<noteq> ''private'')"
      and a: "get_chat_administrators tg = Fails \<or>
        (\<exists>admins. get_chat_administrators tg = Gives admins \<and>
            find (handle_matches (clean_username u)) admins = None)"
      and mm: "get_chat_member tg (CHR ''@'' # clean_username u) = Gives (Some m)"
    from c g have "resolve_username_to_id tg u c
        = resolve_username_to_id (tg\<lparr>get_chat := (\<lambda>h. Fails)\<rparr>) u c"
      by (auto simp: tiers)
    with c a mm show "resolve_username_to_id tg u c =
        (AList.update (clean_username u) (user_ident m) c,
         [GetChat (CHR ''@'' # clean_username u), GetChatAdministrators,
          GetChatMember (CHR ''@'' # clean_username u)], Inr (user_ident m))"
      by (auto simp: rest)
  next
    assume c: "map_of c (clean_username u) = None"
      and g: "get_chat tg (CHR ''@'' # clean_username u) = Fails \<or>
        (\<exists>ch. get_chat tg (CHR ''@'' # clean_username u) = Gives ch \<and> chat_kind ch \<noteq> ''private'')"
      and a: "get_chat_administrators tg = Fails \<or>
        (\<exists>admins. get_chat_administrators tg = Gives admins \<and>
            find (handle_matches (clean_username u)) admins = None)"
      and mm: "get_chat_member tg (CHR ''@'' # clean_username u) = Fails \<or>
        get_chat_member tg (CHR ''@'' # clean_username u) = Gives None"
    from c g have "resolve_username_to_id tg u c
        = resolve_username_to_id (tg\<lparr>get_chat := (\<lambda>h. Fails)\<rparr>) u c"
      by (auto simp: tiers)
    with c a mm show "resolve_username_to_id tg u c =
        (c, [GetChat (CHR ''@'' # clean_username u), GetChatAdministrators,
             GetChatMember (CHR ''@'' # clean_username u)], Inl ValueError)"
      by (auto simp: rest)
  qed
qed

theorem resolve_username_to_id_tiers_witness:
  "clean_username ''@Alice'' = ''alice'' \<and>
   get_chat tg_private ''@alice'' = Gives \<lparr>chat_ident = 7, chat_kind = ''private''\<rparr> \<and>
   resolve_username_to_id tg_private ''@Alice'' []
     = ([(''alice'', 7)], [GetChat ''@alice''], Inr 7) \<and>
   get_chat tg_channel ''@alice'' = Gives \<lparr>chat_ident = - 500, chat_kind = ''channel''\<rparr> \<and>
   find (handle_matches ''alice'')
     [\<lparr>user_ident = 3, user_name = None\<rparr>, \<lparr>user_ident = 5, user_name = Some ''Bob''\<rparr>,
      \<lparr>user_ident = 7, user_name = Some ''ALICE''\<rparr>]
     = Some \<lparr>user_ident = 7, user_name = Some ''ALICE''\<rparr> \<and>
   resolve_username_to_id tg_channel ''@Alice'' []
     = ([(''alice'', 7)], [GetChat ''@alice'', GetChatAdministrators], Inr 7) \<and>
   resolve_username_to_id tg_member ''@Alice'' [(''bob'', 5)]
     = ([(''bob'', 5), (''alice'', 9)],
        [GetChat ''@alice'', GetChatAdministrators, GetChatMember ''@alice''], Inr 9) \<and>
   resolve_username_to_id tg_silent ''@Alice'' [(''bob'', 5)]
     = ([(''bob'', 5)],
        [GetChat ''@alice'', GetChatAdministrators, GetChatMember ''@alice''], Inl ValueError) \<and>
   resolve_username_to_id tg_silent ''ALICE'' [(''alice'', 7)] = ([(''alice'', 7)], [], Inr 7)"
proof -
  have k: "clean_username ''@Alice'' = ''alice''" "clean_username ''ALICE'' = ''alice''"
    by code_simp+
  have m0: "map_of ([] :: cache) ''alice'' = None" "map_of [(''bob'', 5 :: int)] ''alice'' = None"
    by simp_all
  have p: "get_chat tg_private ''@alice'' = Gives \<lparr>chat_ident = 7, chat_kind = ''private''\<rparr>"
    by (simp add: tg_private_def)
  have ch: "get_chat tg_channel ''@alice'' = Gives \<lparr>chat_ident = - 500, chat_kind = ''channel''\<rparr>"
    by (simp add: tg_channel_def)
  have ad: "get_chat_administrators tg_channel =
      Gives [\<lparr>user_ident = 3, user_name = None\<rparr>, \<lparr>user_ident = 5, user_name = Some ''Bob''\<rparr>,
             \<lparr>user_ident = 7, user_name = Some ''ALICE''\<rparr>]"
    by (simp add: tg_channel_def)
  have f: "find (handle_matches ''alice'')
     [\<lparr>user_ident = 3, user_name = None\<rparr>, \<lparr>user_ident = 5, user_name = Some ''Bob''\<rparr>,
      \<lparr>user_ident = 7, user_name = Some ''ALICE''\<rparr>]
     = Some \<lparr>user_ident = 7, user_name = Some ''ALICE''\<rparr>"
    by code_simp
  have mb: "get_chat tg_member ''@alice'' = Fails"
    "get_chat_administrators tg_member = Gives [\<lparr>user_ident = 5, user_name = Some ''Bob''\<rparr>]"
    "find (handle_matches ''alice'') [\<lparr>user_ident = 5, user_name = Some ''Bob''\<rparr>] = None"
    "get_chat_member tg_member ''@alice'' = Gives (Some \<lparr>user_ident = 9, user_name = None\<rparr>)"
    by (simp add: tg_member_def, simp add: tg_member_def, code_simp, simp add: tg_member_def)
  have si: "get_chat tg_silent ''@alice'' = Fails" "get_chat_administrators tg_silent = Fails"
    "get_chat_member tg_silent ''@alice'' = Gives None"
    by (simp_all add: tg_silent_def)
  note i1 = resolve_username_to_id_tiers [of "''@Alice''" "[]" tg_private, unfolded Let_def k]
  note i2 = resolve_username_to_id_tiers [of "''@Alice''" "[]" tg_channel, unfolded Let_def k]
  note i3 = resolve_username_to_id_tiers [of "''@Alice''" "[(''bob'', 5)]" tg_member, unfolded Let_def k]
  note i4 = resolve_username_to_id_tiers [of "''@Alice''" "[(''bob'', 5)]" tg_silent, unfolded Let_def k]
  from i1 m0 p have r1: "resolve_username_to_id tg_private ''@Alice'' []
     = ([(''alice'', 7)], [GetChat ''@alice''], Inr 7)"
    by simp
  from i2 m0 ch ad f have r2: "resolve_username_to_id tg_channel ''@Alice'' []
     = ([(''alice'', 7)], [GetChat ''@alice'', GetChatAdministrators], Inr 7)"
    by simp
  from i3 m0 mb have r3: "resolve_username_to_id tg_member ''@Alice'' [(''bob'', 5)]
     = ([(''bob'', 5), (''alice'', 9)],
        [GetChat ''@alice'', GetChatAdministrators, GetChatMember ''@alice''], Inr 9)"
    by simp
  from i4 m0 si have r4: "resolve_username_to_id tg_silent ''@Alice'' [(''bob'', 5)]
     = ([(''bob'', 5)],
        [GetChat ''@alice'', GetChatAdministrators, GetChatMember ''@alice''], Inl ValueError)"
    by simp
  from i1 r1 k have r5: "resolve_username_to_id tg_silent ''ALICE'' [(''alice'', 7)]
      = ([(''alice'', 7)], [], Inr 7)"
    by blast
  from k p r1 ch f r2 r3 r4 r5 show ?thesis by blast
qed

subsection \<open>Facts about the flag and the store\<close>

lemma notified_of_get:
  "notified_of t (b\<lparr>user_sessions := fst (get_user_session k (user_sessions b))\<rparr>) = notified_of t b"
  by (auto simp: notified_of_def get_user_session_def update_conv' new_session_def
      split: option.splits)

lemma notified_of_orders [simp]: "notified_of t (b\<lparr>orders := x\<rparr>) = notified_of t b"
  by (simp add: notified_of_def)

lemma notified_of_emit [simp]: "notified_of t (emit e b) = notified_of t b"
  by (simp add: notified_of_def emit_def)

lemma notified_of_mark_other:
  "t \<noteq> k \<Longrightarrow> notified_of t (mark_notified k b) = notified_of t b"
  by (simp add: notified_of_def mark_notified_def map_of_map_entry)

lemma approve_announces:
  "approve_payment ord = Inr ord' \<Longrightarrow>
   status ord' = verified \<and> telegramUserId ord' = telegramUserId ord"
  by (auto simp: approve_payment_def split: if_splits)

lemma reject_announces:
  "reject_payment r ord = Inr ord' \<Longrightarrow>
   status ord' = rejected \<and> statusDetails ord' = Some r \<and>
   telegramUserId ord' = telegramUserId ord"
  by (auto simp: reject_payment_def split: if_splits)

lemma deliveries_emit_other [simp]:
  "deliveries c (outbox (emit (Annotate a) b)) = deliveries c (outbox b)"
  "deliveries c (outbox (emit (AdminReply t) b)) = deliveries c (outbox b)"
  by (simp_all add: deliveries_def emit_def)

subsection \<open>The polling loop\<close>

lemma poll_sessions_append:
  "poll_sessions env (xs @ ys) b =
     (case poll_sessions env xs b of
        (b1, True) \<Rightarrow> (b1, True)
      | (b1, False) \<Rightarrow> poll_sessions env ys b1)"
  by (induction xs arbitrary: b) (auto split: option.splits poll_action.splits)

lemma poll_loop_count: "snd (poll_order_status_changes envs b) = length envs"
proof (induction envs arbitrary: b)
  case Nil
  show ?case by simp
next
  case (Cons env envs)
  obtain b' r where t: "poll_tick env b = (b', r)" by (cases "poll_tick env b")
  obtain b'' n where l: "poll_order_status_changes envs b' = (b'', n)"
    by (cases "poll_order_status_changes envs b'")
  from Cons [of b'] l have "n = length envs" by simp
  with t l show ?case by simp
qed

lemma poll_sessions_send_fails:
  "send_raises env t \<Longrightarrow> notified_of t (fst (poll_sessions env xs b)) = notified_of t b"
proof (induction xs arbitrary: b)
  case Nil
  show ?case by simp
next
  case (Cons k xs)
  show ?case
  proof (cases "k = t")
    case True
    with Cons show ?thesis
      by (auto split: option.splits poll_action.splits)
  next
    case False
    with Cons show ?thesis
      by (auto split: option.splits poll_action.splits simp: notified_of_mark_other)
  qed
qed

text \<open>
  C3 as stated fails.  The \<open>try\<close> of \<open>poll_order_status_changes\<close> encloses the whole
  \<open>for\<close> loop: when the send to the first user raises, the tick is over, and the second
  user, whose notification was due and whose send would have worked, is not visited.
  The same happens when the order fetch for the first user raises.
\<close>

theorem poll_failure_skips_remaining_sessions:
  "poll_check True (orders bot2) bob = PSend 1002 PaymentVerified \<and>
   poll_tick \<lparr>fetch_raises = (\<lambda>t. False), send_raises = (\<lambda>t. t = ''1001'')\<rparr> bot2
     = (bot2, True) \<and>
   poll_tick \<lparr>fetch_raises = (\<lambda>t. t = ''1001''), send_raises = (\<lambda>t. False)\<rparr> bot2
     = (bot2, True)"
  by code_simp

text \<open>
  C3, amended.  A failure while one session is processed (the order fetch or the send
  raises) ends that tick: what the tick did for the sessions before it stays, and the
  sessions after it in the snapshot are not processed in that tick.  The failure is
  caught inside the loop body, so it never stops the loop: every tick of the run takes
  place, each from the state the tick before it left, whether or not that one failed.
\<close>

theorem poll_failure_ends_tick_not_loop:
  "(poll_sessions env pre b = (b1, False) \<and> map_of (user_sessions b1) tid = Some s \<and>
    (poll_check (\<not> fetch_raises env tid) (orders b1) s = PRaise \<or>
     (\<exists>chat n. poll_check (\<not> fetch_raises env tid) (orders b1) s = PSend chat n \<and>
        send_raises env tid))
    \<longrightarrow> poll_sessions env (pre @ tid # post) b = (b1, True)) \<and>
   snd (poll_order_status_changes envs b) = length envs \<and>
   poll_order_status_changes (env # envs) b =
     (fst (poll_order_status_changes envs (fst (poll_tick env b))), Suc (length envs))"
proof (intro conjI impI)
  assume "poll_sessions env pre b = (b1, False) \<and> map_of (user_sessions b1) tid = Some s \<and>
    (poll_check (\<not> fetch_raises env tid) (orders b1) s = PRaise \<or>
     (\<exists>chat n. poll_check (\<not> fetch_raises env tid) (orders b1) s = PSend chat n \<and>
        send_raises env tid))"
  then show "poll_sessions env (pre @ tid # post) b = (b1, True)"
    by (auto simp: poll_sessions_append)
next
  show "snd (poll_order_status_changes envs b) = length envs" by (rule poll_loop_count)
next
  show "poll_order_status_changes (env # envs) b =
     (fst (poll_order_status_changes envs (fst (poll_tick env b))), Suc (length envs))"
    using poll_loop_count [of envs "fst (poll_tick env b)"]
    by (auto split: prod.splits)
qed

theorem poll_failure_ends_tick_not_loop_witness:
  "poll_sessions \<lparr>fetch_raises = (\<lambda>t. False), send_raises = (\<lambda>t. t = ''1001'')\<rparr> [] bot2
     = (bot2, False) \<and>
   map_of (user_sessions bot2) ''1001'' = Some alice \<and>
   poll_check (\<not> False) (orders bot2) alice = PSend 1001 PaymentVerified \<and>
   poll_sessions \<lparr>fetch_raises = (\<lambda>t. False), send_raises = (\<lambda>t. t = ''1001'')\<rparr>
     ([] @ ''1001'' # [''1002'']) bot2 = (bot2, True) \<and>
   map (\<lambda>(k, s). (k, notified s))
     (user_sessions (fst (poll_order_status_changes
        [\<lparr>fetch_raises = (\<lambda>t. False), send_raises = (\<lambda>t. t = ''1001'')\<rparr>,
         \<lparr>fetch_raises = (\<lambda>t. False), send_raises = (\<lambda>t. False)\<rparr>] bot2)))
     = [(''1001'', Some True), (''1002'', Some True)] \<and>
   snd (poll_order_status_changes
        [\<lparr>fetch_raises = (\<lambda>t. False), send_raises = (\<lambda>t. t = ''1001'')\<rparr>,
         \<lparr>fetch_raises = (\<lambda>t. False), send_raises = (\<lambda>t. False)\<rparr>] bot2) = 2"
proof -
  let ?e1 = "\<lparr>fetch_raises = (\<lambda>t. False), send_raises = (\<lambda>t. t = ''1001'')\<rparr>"
  let ?e2 = "\<lparr>fetch_raises = (\<lambda>t. False), send_raises = (\<lambda>t. False)\<rparr>"
  have p: "poll_sessions ?e1 [] bot2 = (bot2, False)" by simp
  have m: "map_of (user_sessions bot2) ''1001'' = Some alice" by (simp add: bot2_def)
  have c: "poll_check (\<not> False) (orders bot2) alice = PSend 1001 PaymentVerified"
    by code_simp
  have two: "map (\<lambda>(k, s). (k, notified s))
     (user_sessions (fst (poll_order_status_changes [?e1, ?e2] bot2)))
     = [(''1001'', Some True), (''1002'', Some True)]"
    by code_simp
  from c have c': "poll_check (\<not> fetch_raises ?e1 ''1001'') (orders bot2) alice
      = PSend 1001 PaymentVerified" by simp
  note inst = poll_failure_ends_tick_not_loop
    [of ?e1 "[]" bot2 bot2 "''1001''" alice "[''1002'']" "[?e1, ?e2]"]
  from inst p m c' have ended: "poll_sessions ?e1 ([] @ ''1001'' # [''1002'']) bot2 = (bot2, True)"
    by simp
  from inst have cnt: "snd (poll_order_status_changes [?e1, ?e2] bot2) = 2" by simp
  from p m c ended two cnt show ?thesis by simp
qed

subsection \<open>The reply handler and the button handler\<close>

lemma admin_reply_begin_notified:
  "notified_of t (fst (admin_reply_begin channel fetched upd b)) = notified_of t b"
  by (auto simp: admin_reply_begin_def Let_def notified_of_get split: option.splits sum.splits)

lemma admin_reply_begin_outbox:
  "outbox (fst (admin_reply_begin channel fetched upd b)) = outbox b"
  by (auto simp: admin_reply_begin_def Let_def split: option.splits sum.splits)

lemma admin_reply_begin_persisted:
  "admin_reply_begin channel fetched upd b = (b', AwaitSend tid chat n) \<Longrightarrow>
   \<exists>m caption oid ord. upd = Some m \<and> reply_caption m = Some (Some caption) \<and>
     parse_order_id caption = Some oid \<and> map_of (orders b') oid = Some ord \<and>
     telegramUserId ord = tid \<and> announces n ord"
  by (auto simp: admin_reply_begin_def Let_def update_conv' announces_def
      split: option.splits sum.splits if_splits dest!: approve_announces reject_announces)

lemma handle_admin_reply_send_fails:
  "notified_of t (handle_admin_reply channel fetched False upd b) = notified_of t b \<and>
   outbox (handle_admin_reply channel fetched False upd b) = outbox b"
  using admin_reply_begin_notified [of t channel fetched upd b]
    admin_reply_begin_outbox [of channel fetched upd b]
  by (cases "admin_reply_begin channel fetched upd b")
    (auto simp: handle_admin_reply_def admin_reply_resume_def split: pending.splits)

lemma response_crashed_keeps [simp]:
  "notified_of t (fst (response_crashed env b)) = notified_of t b"
  "deliveries c (outbox (fst (response_crashed env b))) = deliveries c (outbox b)"
  by (simp_all add: response_crashed_def)

lemma response_failed_keeps [simp]:
  "notified_of t (fst (response_failed env a b)) = notified_of t b"
  "deliveries c (outbox (fst (response_failed env a b))) = deliveries c (outbox b)"
  by (simp_all add: response_failed_def)

lemma response_invalid_keeps [simp]:
  "notified_of t (fst (response_invalid env b)) = notified_of t b"
  "deliveries c (outbox (fst (response_invalid env b))) = deliveries c (outbox b)"
  by (simp_all add: response_invalid_def)

lemma response_info_keeps [simp]:
  "notified_of t (fst (response_info env a b)) = notified_of t b"
  "deliveries c (outbox (fst (response_info env a b))) = deliveries c (outbox b)"
  by (simp_all add: response_info_def)

lemma admin_response_begin_notified:
  "notified_of t (fst (admin_response_begin env data b)) = notified_of t b"
  unfolding admin_response_begin_def Let_def
  by (simp add: case_prod_beta notified_of_get
      split: list.splits option.splits sum.splits fetch_result.splits)

lemma admin_response_begin_deliveries:
  "deliveries c (outbox (fst (admin_response_begin env data b))) = deliveries c (outbox b)"
  unfolding admin_response_begin_def Let_def
  by (simp add: case_prod_beta split: list.splits option.splits sum.splits fetch_result.splits)

lemma admin_response_begin_persisted:
  "admin_response_begin env data b = (b', RAwaitSend tid chat n d e) \<Longrightarrow>
   outbox b' = outbox b \<and>
   (\<exists>action oid ord. py_split_max data (CHR ''_'') 2 = [action, tid, oid] \<and>
       map_of (orders b') oid = Some ord \<and> announces n ord)"
  unfolding admin_response_begin_def Let_def
  by (auto simp: case_prod_beta update_conv' announces_def emit_def
      split: list.splits option.splits sum.splits if_splits fetch_result.splits
      dest!: approve_announces reject_announces)

lemma handle_admin_response_notify_fails:
  assumes nf: "\<not> notify_ok env"
  shows "notified_of t (fst (handle_admin_response env data b)) = notified_of t b \<and>
         deliveries c (outbox (fst (handle_admin_response env data b))) = deliveries c (outbox b)"
proof (cases "admin_response_begin env data b")
  case (Pair b' p)
  then have b': "notified_of t b' = notified_of t b"
      "deliveries c (outbox b') = deliveries c (outbox b)"
    using admin_response_begin_notified [of t env data b]
      admin_response_begin_deliveries [of c env data b] by simp_all
  show ?thesis
  proof (cases p)
    case (RDone oc)
    with Pair b' show ?thesis by (simp add: handle_admin_response_def)
  next
    case (RAwaitSend tid chat n d e)
    with Pair b' nf show ?thesis
      by (simp add: handle_admin_response_def admin_response_resume_def)
  qed
qed

text \<open>A tick in which nothing raises serves every session that is due.\<close>

lemma mark_stays_true:
  "notified_of t b = Some True \<Longrightarrow> notified_of t (mark_notified k b) = Some True"
  by (auto simp: notified_of_def mark_notified_def map_of_map_entry split: option.splits)

lemma poll_sessions_stays_true:
  "notified_of t b = Some True \<Longrightarrow> notified_of t (fst (poll_sessions env xs b)) = Some True"
proof (induction xs arbitrary: b)
  case Nil
  then show ?case by simp
next
  case (Cons k xs)
  then show ?case
    by (auto split: option.splits poll_action.splits simp: mark_stays_true)
qed

lemma poll_sessions_outbox_grows:
  "set (outbox b) \<subseteq> set (outbox (fst (poll_sessions env xs b)))"
proof (induction xs arbitrary: b)
  case Nil
  show ?case by simp
next
  case (Cons k xs)
  have "set (outbox b) \<subseteq> set (outbox (mark_notified k (emit e b)))" for e
    by (auto simp: mark_notified_def emit_def)
  with Cons show ?case
    by (auto split: option.splits poll_action.splits dest!: subsetD)
qed

lemma poll_check_due:
  "order_id s = Some oid \<Longrightarrow> chat_id s = Some chat \<Longrightarrow> map_of store oid = Some ord \<Longrightarrow>
   terminal (status ord) \<Longrightarrow> \<not> is_notified s \<Longrightarrow>
   poll_check True store s =
     PSend chat (if status ord = verified then PaymentVerified
                 else PaymentRejected (or_default (statusDetails ord) ''No reason provided''))"
  by (simp add: poll_check_def)

lemma poll_check_no_raise: "poll_check True store s \<noteq> PRaise"
  by (simp add: poll_check_def split: option.splits)

lemma mark_notified_self:
  "map_of (user_sessions b) t = Some s \<Longrightarrow> notified_of t (mark_notified t b) = Some True"
  by (simp add: notified_of_def mark_notified_def map_of_map_entry)

lemma mark_notified_other_session:
  "k \<noteq> t \<Longrightarrow> map_of (user_sessions (mark_notified k b)) t = map_of (user_sessions b) t"
  by (simp add: mark_notified_def map_of_map_entry)

lemma poll_sessions_serves:
  assumes calm: "\<forall>k. \<not> fetch_raises env k \<and> \<not> send_raises env k"
  shows "t \<in> set xs \<Longrightarrow> map_of (user_sessions b) t = Some s \<Longrightarrow> order_id s = Some oid \<Longrightarrow>
    chat_id s = Some chat \<Longrightarrow> map_of (orders b) oid = Some ord \<Longrightarrow>
    terminal (status ord) \<Longrightarrow> \<not> is_notified s \<Longrightarrow>
    notified_of t (fst (poll_sessions env xs b)) = Some True \<and>
    Notify chat (if status ord = verified then PaymentVerified
                 else PaymentRejected (or_default (statusDetails ord) ''No reason provided''))
      \<in> set (outbox (fst (poll_sessions env xs b)))"
proof (induction xs arbitrary: b)
  case Nil
  then show ?case by simp
next
  case (Cons k xs)
  let ?n = "if status ord = verified then PaymentVerified
            else PaymentRejected (or_default (statusDetails ord) ''No reason provided'')"
  show ?case
  proof (cases "k = t")
    case True
    from Cons.prems have due: "poll_check True (orders b) s = PSend chat ?n"
      by (simp add: poll_check_due)
    let ?b1 = "mark_notified t (emit (Notify chat ?n) b)"
    from True due calm Cons.prems(2)
    have run: "poll_sessions env (k # xs) b = poll_sessions env xs ?b1"
      by simp
    from Cons.prems(2) have "notified_of t ?b1 = Some True"
      by (simp add: mark_notified_self emit_def)
    then have flag: "notified_of t (fst (poll_sessions env xs ?b1)) = Some True"
      by (rule poll_sessions_stays_true)
    have "Notify chat ?n \<in> set (outbox ?b1)"
      by (simp add: mark_notified_def emit_def)
    with poll_sessions_outbox_grows [of ?b1 env xs]
    have "Notify chat ?n \<in> set (outbox (fst (poll_sessions env xs ?b1)))"
      by blast
    with run flag show ?thesis by simp
  next
    case False
    with Cons.prems have mem: "t \<in> set xs" by simp
    show ?thesis
    proof (cases "map_of (user_sessions b) k")
      case None
      with Cons.IH [OF mem Cons.prems(2-7)] show ?thesis by simp
    next
      case (Some sk)
      show ?thesis
      proof (cases "poll_check True (orders b) sk")
        case PSkip
        with Some calm Cons.IH [OF mem Cons.prems(2-7)] show ?thesis by simp
      next
        case PRaise
        with poll_check_no_raise show ?thesis by blast
      next
        case (PSend c n)
        let ?b1 = "mark_notified k (emit (Notify c n) b)"
        from False Cons.prems(2) have s1: "map_of (user_sessions ?b1) t = Some s"
          by (simp add: mark_notified_other_session emit_def)
        from Cons.prems(5) have o1: "map_of (orders ?b1) oid = Some ord"
          by (simp add: mark_notified_def emit_def)
        from Cons.IH [OF mem s1 Cons.prems(3,4) o1 Cons.prems(6,7)] Some PSend calm
        show ?thesis by simp
      qed
    qed
  qed
qed

lemma poll_tick_serves:
  assumes "\<forall>k. \<not> fetch_raises env k \<and> \<not> send_raises env k"
    and "map_of (user_sessions b) t = Some s" and "order_id s = Some oid"
    and "chat_id s = Some chat" and "map_of (orders b) oid = Some ord"
    and "announces n ord" and "\<forall>r. n = PaymentRejected r \<longrightarrow> r \<noteq> []"
    and "notified s \<noteq> Some True"
  shows "notified_of t (fst (poll_tick env b)) = Some True \<and>
         Notify chat n \<in> set (outbox (fst (poll_tick env b)))"
proof -
  from assms(2) have mem: "t \<in> set (map fst (user_sessions b))"
    by (metis map_of_eq_None_iff option.distinct(1) set_map)
  from assms(6) have fin: "terminal (status ord)"
    by (cases n) (simp_all add: announces_def terminal_def)
  from assms(8) have fresh: "\<not> is_notified s"
    by (cases "notified s") (auto simp: is_notified_def)
  from assms(6,7) have n: "n = (if status ord = verified then PaymentVerified
      else PaymentRejected (or_default (statusDetails ord) ''No reason provided''))"
    by (cases n) (auto simp: announces_def or_default_def)
  from poll_sessions_serves [OF assms(1) mem assms(2-5) fin fresh] n
  show ?thesis by (simp add: poll_tick_def)
qed

lemma poll_sessions_unassociated:
  "map_of (user_sessions b) t = Some s \<Longrightarrow> order_id s = None \<or> chat_id s = None \<Longrightarrow>
   poll_sessions env [t] b = (b, False)"
  by (auto simp: poll_check_def split: option.splits)

text \<open>
  C5 as stated fails in its last part.  The user \<open>1004\<close>, whose order \<open>O4\<close> awaits
  verification, sends \<open>/cancel\<close> and then \<open>/start\<close>: the session is a new one, with a
  chat and no associated order.  The admin answers the
  evidence with \<open>approve\<close> and the send to the user raises: the order is verified in the
  store, the flag is not set, nothing was delivered.  No later tick delivers the
  notification, since the poller skips a session without \<open>order_id\<close>, and no retry of the
  admin does, by reply or by button, since the order is already verified and the
  transition is refused before any send: after two ticks and two retries the only thing
  sent is the error annotation of the button.
\<close>

theorem failed_send_not_recovered:
  "run_events [Call H_cancel calm (Command ''1004'' 1004 ''cancel''),
               Call H_start calm (Command ''1004'' 1004 ''start'')]
     (bot4\<lparr>user_sessions :=
              [(''1004'', alice\<lparr>chat_id := Some 1004, order_id := Some ''O4''\<rparr>)]\<rparr>) = bot4 \<and>
   map_option status
     (map_of (orders (handle_admin_reply (- 100) True False (Some (admin_answers ''approve'')) bot4))
        ''O4'') = Some verified \<and>
   notified_of ''1004''
     (handle_admin_reply (- 100) True False (Some (admin_answers ''approve'')) bot4) = None \<and>
   outbox (handle_admin_reply (- 100) True False (Some (admin_answers ''approve'')) bot4) = [] \<and>
   outbox (run_events
     [Reply (- 100) True False (Some (admin_answers ''approve'')),
      Tick quiet,
      Reply (- 100) True True (Some (admin_answers ''approve'')),
      Button willing ''approve_1004_O4'',
      Tick quiet] bot4) = [Annotate ApprovedNotifyError]"
  by code_simp

text \<open>
  C5, amended.  On the approval and the rejection path of both admin handlers, when the
  handler reaches its \<open>await send_message\<close> nothing has been sent yet and the store
  already holds, for the order that the admin's message names (the order identity parsed
  from the caption replied to, the order identity of the button's token), the terminal
  state that the notification announces.  When the send raises, the \<open>notified\<close> flag of
  every session is what it was and no notification has gone out: for the reply handler,
  for the button handler, and for a tick of the polling loop (for the session whose send
  raises).  A later tick in which no call raises delivers the notification and sets the
  flag when the session is associated with the order (its \<open>order_id\<close> is the order's
  identity, it has a chat, and its flag is not true); the poller passes over a session
  without an associated order or without a chat.
\<close>

theorem transition_persisted_before_send:
  "(admin_reply_begin channel fetched upd b = (b', AwaitSend tid chat n) \<longrightarrow>
      outbox b' = outbox b \<and>
      (\<exists>m caption oid ord. upd = Some m \<and> reply_caption m = Some (Some caption) \<and>
         parse_order_id caption = Some oid \<and> map_of (orders b') oid = Some ord \<and>
         telegramUserId ord = tid \<and> announces n ord)) \<and>
   (admin_response_begin env data b = (b'', RAwaitSend tid chat n d e) \<longrightarrow>
      outbox b'' = outbox b \<and>
      (\<exists>action oid ord. py_split_max data (CHR ''_'') 2 = [action, tid, oid] \<and>
         map_of (orders b'') oid = Some ord \<and> announces n ord)) \<and>
   notified_of t (handle_admin_reply channel fetched False upd b) = notified_of t b \<and>
   outbox (handle_admin_reply channel fetched False upd b) = outbox b \<and>
   (\<not> notify_ok env \<longrightarrow>
      notified_of t (fst (handle_admin_response env data b)) = notified_of t b \<and>
      deliveries c (outbox (fst (handle_admin_response env data b))) = deliveries c (outbox b)) \<and>
   (send_raises penv t \<longrightarrow> notified_of t (fst (poll_tick penv b)) = notified_of t b) \<and>
   ((\<forall>k. \<not> fetch_raises penv k \<and> \<not> send_raises penv k) \<and>
    map_of (user_sessions b) t = Some s \<and> order_id s = Some oid' \<and> chat_id s = Some chat' \<and>
    map_of (orders b) oid' = Some ord' \<and> announces n' ord' \<and>
    (\<forall>r. n' = PaymentRejected r \<longrightarrow> r \<noteq> []) \<and> notified s \<noteq> Some True \<longrightarrow>
      notified_of t (fst (poll_tick penv b)) = Some True \<and>
      Notify chat' n' \<in> set (outbox (fst (poll_tick penv b)))) \<and>
   (map_of (user_sessions b) t = Some s \<and> (order_id s = None \<or> chat_id s = None) \<longrightarrow>
      poll_sessions penv [t] b = (b, False))"
proof (intro conjI impI)
  assume a: "admin_reply_begin channel fetched upd b = (b', AwaitSend tid chat n)"
  from admin_reply_begin_outbox [of channel fetched upd b] a
  show "outbox b' = outbox b" by simp
  from a show "\<exists>m caption oid ord. upd = Some m \<and> reply_caption m = Some (Some caption) \<and>
         parse_order_id caption = Some oid \<and> map_of (orders b') oid = Some ord \<and>
         telegramUserId ord = tid \<and> announces n ord"
    by (rule admin_reply_begin_persisted)
next
  assume a: "admin_response_begin env data b = (b'', RAwaitSend tid chat n d e)"
  from admin_response_begin_persisted [OF a]
  show "outbox b'' = outbox b"
    and "\<exists>action oid ord. py_split_max data (CHR ''_'') 2 = [action, tid, oid] \<and>
         map_of (orders b'') oid = Some ord \<and> announces n ord"
    by simp_all
next
  show "notified_of t (handle_admin_reply channel fetched False upd b) = notified_of t b"
    and "outbox (handle_admin_reply channel fetched False upd b) = outbox b"
    using handle_admin_reply_send_fails [of t channel fetched upd b] by simp_all
next
  assume nf: "\<not> notify_ok env"
  from handle_admin_response_notify_fails [OF nf, of t data b c]
  show "notified_of t (fst (handle_admin_response env data b)) = notified_of t b"
    and "deliveries c (outbox (fst (handle_admin_response env data b))) = deliveries c (outbox b)"
    by simp_all
next
  assume "send_raises penv t"
  then show "notified_of t (fst (poll_tick penv b)) = notified_of t b"
    by (simp add: poll_tick_def poll_sessions_send_fails)
next
  assume a: "(\<forall>k. \<not> fetch_raises penv k \<and> \<not> send_raises penv k) \<and>
    map_of (user_sessions b) t = Some s \<and> order_id s = Some oid' \<and> chat_id s = Some chat' \<and>
    map_of (orders b) oid' = Some ord' \<and> announces n' ord' \<and>
    (\<forall>r. n' = PaymentRejected r \<longrightarrow> r \<noteq> []) \<and> notified s \<noteq> Some True"
  then have "notified_of t (fst (poll_tick penv b)) = Some True \<and>
      Notify chat' n' \<in> set (outbox (fst (poll_tick penv b)))"
    by (intro poll_tick_serves [of penv b t s oid' chat' ord' n']) simp_all
  then show "notified_of t (fst (poll_tick penv b)) = Some True"
    and "Notify chat' n' \<in> set (outbox (fst (poll_tick penv b)))"
    by simp_all
next
  assume "map_of (user_sessions b) t = Some s \<and> (order_id s = None \<or> chat_id s = None)"
  then show "poll_sessions penv [t] b = (b, False)"
    using poll_sessions_unassociated [of b t s penv] by blast
qed

theorem transition_persisted_before_send_witness:
  "admin_reply_begin (- 100) True (Some (admin_says ''approve'')) bot1
     = (bot1\<lparr>orders := [(''O1'', order1\<lparr>status := verified, statusDetails := None\<rparr>)]\<rparr>,
        AwaitSend ''1001'' 1001 PaymentVerified) \<and>
   outbox (bot1\<lparr>orders := [(''O1'', order1\<lparr>status := verified, statusDetails := None\<rparr>)]\<rparr>)
     = outbox bot1 \<and>
   admin_response_begin (willing\<lparr>notify_ok := False\<rparr>) ''reject_1001_O1'' bot1
     = (bot1\<lparr>orders := [(''O1'', order1\<lparr>status := rejected,
                                          statusDetails := Some ''No reason provided''\<rparr>)]\<rparr>,
        RAwaitSend ''1001'' 1001 (PaymentRejected ''No reason provided'')
          Rejected RejectedNotifyError) \<and>
   handle_admin_reply (- 100) True False (Some (admin_says ''approve'')) bot1
     = bot1\<lparr>orders := [(''O1'', order1\<lparr>status := verified, statusDetails := None\<rparr>)]\<rparr> \<and>
   notified_of ''1001'' (handle_admin_reply (- 100) True False (Some (admin_says ''approve'')) bot1)
     = Some False \<and>
   notified_of ''1001'' (fst (handle_admin_response (willing\<lparr>notify_ok := False\<rparr>)
     ''reject_1001_O1'' bot1)) = Some False \<and>
   send_raises \<lparr>fetch_raises = (\<lambda>t. False), send_raises = (\<lambda>t. t = ''1001'')\<rparr> ''1001'' \<and>
   notified_of ''1001''
     (fst (poll_tick \<lparr>fetch_raises = (\<lambda>t. False), send_raises = (\<lambda>t. t = ''1001'')\<rparr> bot2))
     = Some False \<and>
   notified_of ''1001''
     (fst (poll_tick quiet
        (handle_admin_reply (- 100) True False (Some (admin_says ''approve'')) bot1)))
     = Some True \<and>
   Notify 1001 PaymentVerified \<in> set (outbox (fst (poll_tick quiet
        (handle_admin_reply (- 100) True False (Some (admin_says ''approve'')) bot1)))) \<and>
   map_of (user_sessions bot4) ''1004'' = Some dave \<and> order_id dave = None \<and>
   poll_sessions quiet [''1004''] bot4 = (bot4, False)"
proof -
  let ?env = "willing\<lparr>notify_ok := False\<rparr>"
  let ?penv = "\<lparr>fetch_raises = (\<lambda>t. False), send_raises = (\<lambda>t. t = ''1001'')\<rparr>"
  let ?b' = "bot1\<lparr>orders := [(''O1'', order1\<lparr>status := verified, statusDetails := None\<rparr>)]\<rparr>"
  let ?b'' = "bot1\<lparr>orders := [(''O1'', order1\<lparr>status := rejected,
                                          statusDetails := Some ''No reason provided''\<rparr>)]\<rparr>"
  have r: "admin_reply_begin (- 100) True (Some (admin_says ''approve'')) bot1
      = (?b', AwaitSend ''1001'' 1001 PaymentVerified)"
    by code_simp
  have q: "admin_response_begin ?env ''reject_1001_O1'' bot1
      = (?b'', RAwaitSend ''1001'' 1001 (PaymentRejected ''No reason provided'')
           Rejected RejectedNotifyError)"
    by code_simp
  have h: "handle_admin_reply (- 100) True False (Some (admin_says ''approve'')) bot1 = ?b'"
    by code_simp
  have f1: "notified_of ''1001'' bot1 = Some False" by code_simp
  have f2: "notified_of ''1001'' bot2 = Some False" by code_simp
  have nf: "\<not> notify_ok ?env" by simp
  have sr: "send_raises ?penv ''1001''" by simp
  have qu: "\<forall>k. \<not> fetch_raises quiet k \<and> \<not> send_raises quiet k" by (simp add: quiet_def)
  have al: "map_of (user_sessions ?b') ''1001'' = Some alice" "order_id alice = Some ''O1''"
    "chat_id alice = Some 1001" "notified alice \<noteq> Some True"
    "map_of (orders ?b') ''O1'' = Some (order1\<lparr>status := verified, statusDetails := None\<rparr>)"
    "announces PaymentVerified (order1\<lparr>status := verified, statusDetails := None\<rparr>)"
    "\<forall>r. PaymentVerified = PaymentRejected r \<longrightarrow> r \<noteq> []"
    by (simp_all add: bot1_def alice_def announces_def)
  have dv: "map_of (user_sessions bot4) ''1004'' = Some dave" "order_id dave = None"
    by (simp_all add: bot4_def dave_def new_session_def)
  note inst1 = transition_persisted_before_send
    [where channel = "- 100" and fetched = True and upd = "Some (admin_says ''approve'')"
       and b = bot1 and b' = ?b' and tid = "''1001''" and chat = 1001 and n = PaymentVerified
       and env = ?env and data = "''reject_1001_O1''" and t = "''1001''" and penv = ?penv]
  note inst3 = transition_persisted_before_send
    [where b = bot2 and t = "''1001''" and penv = ?penv]
  note inst4 = transition_persisted_before_send
    [where b = ?b' and t = "''1001''" and penv = quiet and s = alice and oid' = "''O1''"
       and chat' = 1001 and ord' = "order1\<lparr>status := verified, statusDetails := None\<rparr>"
       and n' = PaymentVerified]
  note inst5 = transition_persisted_before_send
    [where b = bot4 and t = "''1004''" and penv = quiet and s = dave]
  from inst1 r have o: "outbox ?b' = outbox bot1" by blast
  from inst1 nf f1 have n1:
    "notified_of ''1001'' (handle_admin_reply (- 100) True False (Some (admin_says ''approve'')) bot1)
       = Some False"
    "notified_of ''1001'' (fst (handle_admin_response ?env ''reject_1001_O1'' bot1)) = Some False"
    by simp_all
  from inst3 sr f2 have n2: "notified_of ''1001'' (fst (poll_tick ?penv bot2)) = Some False"
    by simp
  from inst4 qu al have n4: "notified_of ''1001'' (fst (poll_tick quiet ?b')) = Some True"
    "Notify 1001 PaymentVerified \<in> set (outbox (fst (poll_tick quiet ?b')))"
    by blast+
  from inst5 dv have n5: "poll_sessions quiet [''1004''] bot4 = (bot4, False)"
    by blast
  from r o q h n1 sr n2 n4 n5 dv show ?thesis by simp
qed

lemma reply_exact_approve_approves:
  "handle_admin_reply (- 100) True True (Some (admin_says ''APPROVE'')) bot1
     = \<lparr>user_sessions = [(''1001'', alice\<lparr>notified := Some True\<rparr>)], user_cache = [],
        orders = [(''O1'', order1\<lparr>status := verified, statusDetails := None\<rparr>)],
        outbox = [Notify 1001 PaymentVerified]\<rparr>"
  by code_simp

lemma reply_reject_with_reason:
  "handle_admin_reply (- 100) True True (Some (admin_says ''Reject:  Blurry Receipt '')) bot1
     = \<lparr>user_sessions = [(''1001'', alice\<lparr>notified := Some True\<rparr>)], user_cache = [],
        orders = [(''O1'', order1\<lparr>status := rejected, statusDetails := Some ''blurry receipt''\<rparr>)],
        outbox = [Notify 1001 (PaymentRejected ''blurry receipt'')]\<rparr>"
  by code_simp

lemma reply_reject_default_reason:
  "handle_admin_reply (- 100) True True (Some (admin_says ''reject:  '')) bot1
     = \<lparr>user_sessions = [(''1001'', alice\<lparr>notified := Some True\<rparr>)], user_cache = [],
        orders = [(''O1'', order1\<lparr>status := rejected,
                                   statusDetails := Some ''No reason provided''\<rparr>)],
        outbox = [Notify 1001 (PaymentRejected ''No reason provided'')]\<rparr>"
  by code_simp

lemma reply_unparsable_caption_ignored:
  "parse_order_id caption = None \<Longrightarrow>
   handle_admin_reply channel fetched sent
     (Some \<lparr>msg_chat = chat, msg_text = t, reply_caption = Some (Some caption)\<rparr>) b = b"
  by (simp add: handle_admin_reply_def admin_reply_begin_def Let_def)

text \<open>
  C4, the failing input.  An admin answers the payment evidence of order \<open>O1\<close> with
  \<open>Approved\<close>.  The text begins with \<open>approve\<close> and passes the handler's first test, the
  order is found and the session has a chat, but the decision is then taken by
  \<open>reply_text == 'approve'\<close>: nothing is approved, nothing is sent, the order still
  awaits verification.
\<close>

theorem reply_beginning_with_approve_dropped:
  "startswith (lower ''Approved'') ''approve'' \<and>
   parse_order_id (evidence_caption ''Screenshot'' False ''Alice A'' ''1001'' ''O1'' ''0911'')
     = Some ''O1'' \<and>
   map_of (orders bot1) ''O1'' = Some order1 \<and>
   status order1 = pending_verification \<and>
   handle_admin_reply (- 100) True True (Some (admin_says ''Approved'')) bot1 = bot1"
  by code_simp

subsection \<open>Tokens of the button handler\<close>

lemma not_three:
  "length xs \<noteq> 3 \<Longrightarrow> (case xs of [a, b, c] \<Rightarrow> f a b c | parts \<Rightarrow> g) = g"
  by (auto split: list.splits)

lemma malformed_begin:
  "length (py_split_max data (CHR ''_'') 2) \<noteq> 3 \<Longrightarrow>
   admin_response_begin env data b =
     (if err_caption_ok env then (emit (Annotate InvalidCallbackData) b, RDone Returned)
      else (b, RDone Escaped))"
  unfolding admin_response_begin_def by (simp add: not_three response_invalid_def)

lemma crashed_returns: "final_reply_ok env \<Longrightarrow> snd (response_crashed env b) = Returned"
  by (simp add: response_crashed_def)

lemma failed_returns: "final_reply_ok env \<Longrightarrow> snd (response_failed env a b) = Returned"
  by (simp add: response_failed_def crashed_returns)

lemma info_returns: "final_reply_ok env \<Longrightarrow> snd (response_info env a b) = Returned"
  by (simp add: response_info_def crashed_returns)

lemma invalid_returns: "err_caption_ok env \<Longrightarrow> snd (response_invalid env b) = Returned"
  by (simp add: response_invalid_def)

lemma begin_returns:
  "err_caption_ok env \<Longrightarrow> final_reply_ok env \<Longrightarrow>
   snd (admin_response_begin env data b) \<noteq> RDone Escaped"
  unfolding admin_response_begin_def Let_def
  by (simp add: case_prod_beta crashed_returns failed_returns info_returns invalid_returns
      split: list.splits option.splits sum.splits fetch_result.splits)

lemma resume_returns:
  "final_reply_ok env \<Longrightarrow> snd (admin_response_resume env tid chat n d e b) = Returned"
  by (simp add: admin_response_resume_def failed_returns)

text \<open>
  The handler's own reports can fail.  The token \<open>approve_1001\<close> has two parts;
  unpacking it raises \<open>ValueError\<close>, which the handler catches, and the handler then
  edits the caption inside the \<open>except\<close> clause.  When that edit raises, the exception
  of the edit leaves \<open>handle_admin_response\<close> with nothing changed; the dispatcher
  passes it to the error handler registered at line 236.
\<close>

lemma report_failure_leaves_handler:
  "py_split_max ''approve_1001'' (CHR ''_'') 2 = [''approve'', ''1001''] \<and>
   handle_admin_response (willing\<lparr>err_caption_ok := False\<rparr>) ''approve_1001'' bot1
     = (bot1, Escaped)"
  by code_simp

text \<open>
  C9.  For every button token, nothing that the token causes leaves
  \<open>handle_admin_response\<close> as an exception: the unpacking error of a malformed token,
  a failed order fetch, a refused transition and a failed notification are all caught,
  so that the handler returns whenever its own reports to Telegram (the
  acknowledgement, the error annotation, the final reply to the admin) can be sent.  A
  token that does not split into three parts changes no order and no session, and it is
  answered with the error annotation; when that report cannot be sent, the exception of
  the report leaves the handler with nothing changed.  An exception that leaves the
  handler is handed to the registered error handler, and the updates after it are
  served.
\<close>

theorem admin_response_tolerates_tokens:
  "(length (py_split_max data (CHR ''_'') 2) \<noteq> 3 \<longrightarrow>
      orders (fst (handle_admin_response env data b)) = orders b \<and>
      user_sessions (fst (handle_admin_response env data b)) = user_sessions b \<and>
      (ack_ok env \<and> err_caption_ok env \<longrightarrow>
         handle_admin_response env data b = (emit (Annotate InvalidCallbackData) b, Returned)) \<and>
      (\<not> (ack_ok env \<and> err_caption_ok env) \<longrightarrow>
         handle_admin_response env data b = (b, Escaped))) \<and>
   (ack_ok env \<and> err_caption_ok env \<and> final_reply_ok env \<longrightarrow>
      snd (handle_admin_response env data b) = Returned) \<and>
   run_events (Button env data # Failure e who # evs) b
     = run_events evs (fst (error_handler e who (fst (handle_admin_response env data b))))"
proof (intro conjI impI)
  assume ok: "ack_ok env \<and> err_caption_ok env \<and> final_reply_ok env"
  show "snd (handle_admin_response env data b) = Returned"
  proof (cases "admin_response_begin env data b")
    case (Pair b' p)
    show ?thesis
    proof (cases p)
      case (RDone oc)
      with Pair ok begin_returns [of env data b] show ?thesis
        by (cases oc) (simp_all add: handle_admin_response_def)
    next
      case (RAwaitSend tid chat n d e)
      with Pair ok show ?thesis
        by (simp add: handle_admin_response_def resume_returns)
    qed
  qed
qed (auto simp: handle_admin_response_def malformed_begin emit_def)

theorem admin_response_tolerates_tokens_witness:
  "length (py_split_max ''approve_1001'' (CHR ''_'') 2) \<noteq> 3 \<and>
   handle_admin_response
     \<lparr>ack_ok = True, fetch = FetchError, notify_ok = False, caption_ok = False,
      err_caption_ok = True, info_reply_ok = False, final_reply_ok = True\<rparr>
     ''approve_1001'' bot1 = (emit (Annotate InvalidCallbackData) bot1, Returned) \<and>
   orders (fst (handle_admin_response
     \<lparr>ack_ok = True, fetch = FetchError, notify_ok = False, caption_ok = False,
      err_caption_ok = True, info_reply_ok = False, final_reply_ok = True\<rparr>
     ''approve_1001'' bot1)) = orders bot1 \<and>
   handle_admin_response (willing\<lparr>ack_ok := False\<rparr>) ''approve'' bot1 = (bot1, Escaped) \<and>
   snd (handle_admin_response
     \<lparr>ack_ok = True, fetch = FetchError, notify_ok = False, caption_ok = False,
      err_caption_ok = True, info_reply_ok = False, final_reply_ok = True\<rparr>
     ''approve_1001_O1'' bot1) = Returned \<and>
   snd (handle_admin_response (willing\<lparr>fetch := FetchValueError\<rparr>) ''approve_1001_'' bot1)
     = Returned"
proof -
  let ?env = "\<lparr>ack_ok = True, fetch = FetchError, notify_ok = False, caption_ok = False,
      err_caption_ok = True, info_reply_ok = False, final_reply_ok = True\<rparr>"
  have m: "length (py_split_max ''approve_1001'' (CHR ''_'') 2) \<noteq> 3"
    "length (py_split_max ''approve'' (CHR ''_'') 2) \<noteq> 3" by code_simp+
  have e: "ack_ok ?env \<and> err_caption_ok ?env \<and> final_reply_ok ?env" by simp
  have w: "ack_ok (willing\<lparr>fetch := FetchValueError\<rparr>) \<and>
      err_caption_ok (willing\<lparr>fetch := FetchValueError\<rparr>) \<and>
      final_reply_ok (willing\<lparr>fetch := FetchValueError\<rparr>)"
    "\<not> (ack_ok (willing\<lparr>ack_ok := False\<rparr>) \<and> err_caption_ok (willing\<lparr>ack_ok := False\<rparr>))"
    by (simp_all add: willing_def)
  from admin_response_tolerates_tokens [of "''approve_1001''" ?env bot1] m e
  have a: "handle_admin_response ?env ''approve_1001'' bot1
        = (emit (Annotate InvalidCallbackData) bot1, Returned)"
    and o: "orders (fst (handle_admin_response ?env ''approve_1001'' bot1)) = orders bot1"
    by blast+
  from admin_response_tolerates_tokens [of "''approve''" "willing\<lparr>ack_ok := False\<rparr>" bot1] m w
  have x: "handle_admin_response (willing\<lparr>ack_ok := False\<rparr>) ''approve'' bot1 = (bot1, Escaped)"
    by blast
  from admin_response_tolerates_tokens [of "''approve_1001_O1''" ?env bot1] e
  have r: "snd (handle_admin_response ?env ''approve_1001_O1'' bot1) = Returned"
    by blast
  from admin_response_tolerates_tokens
    [of "''approve_1001_''" "willing\<lparr>fetch := FetchValueError\<rparr>" bot1] w
  have v: "snd (handle_admin_response (willing\<lparr>fetch := FetchValueError\<rparr>) ''approve_1001_'' bot1)
      = Returned"
    by blast
  from m a o x r v show ?thesis by blast
qed

subsection \<open>Concurrent delivery\<close>

text \<open>
  C1, the failing schedule.  The admin replies \<open>approve\<close> to the evidence of order
  \<open>O1\<close>.  The reply handler stores the approval, finds \<open>notified\<close> false and awaits its
  send.  While it waits the poller's sleep ends: the tick finds the order verified and
  \<open>notified\<close> still false, and sends as well.  Both sends return, both tasks set the
  flag: the user has been notified twice of the same verification.
\<close>

theorem race_delivers_twice:
  "map_option (\<lambda>sys. (outbox (shared sys), deliveries 1001 (outbox (shared sys)),
                      notified_of ''1001'' (shared sys)))
     (run (- 100)
        [ReplyArrives True (Some (admin_says ''approve'')),
         PollWakes (\<lambda>t. False),
         PollSendReturns True (\<lambda>t. False),
         ReplySendReturns True]
        \<lparr>shared = bot1, poller = PollSleeping, replier = Done\<rparr>)
   = Some ([Notify 1001 PaymentVerified, Notify 1001 PaymentVerified], 2, Some True)"
  by code_simp

text \<open>
  Without any interleaving: the button handler sets the flag only after the caption
  edit that follows the send.  When the send returns and the edit raises, the user has
  been notified and the flag is still false, so the next tick notifies again.
\<close>

lemma button_then_tick_delivers_twice:
  "outbox (fst (poll_tick \<lparr>fetch_raises = (\<lambda>t. False), send_raises = (\<lambda>t. False)\<rparr>
     (fst (handle_admin_response
        \<lparr>ack_ok = True, fetch = FetchReturns, notify_ok = True, caption_ok = False,
         err_caption_ok = True, info_reply_ok = True, final_reply_ok = True\<rparr>
        ''approve_1001_O1'' bot1))))
   = [Notify 1001 PaymentVerified, Annotate ApprovedNotifyError, Notify 1001 PaymentVerified]"
  by code_simp

subsection \<open>The notified flag under every operation\<close>

lemma notified_of_put:
  "notified_of t (b\<lparr>user_sessions := AList.update k s' (fst (get_user_session k (user_sessions b)))\<rparr>)
     = (if t = k then notified s' else notified_of t b)"
  by (auto simp: notified_of_def get_user_session_def update_conv' split: option.splits)

lemma notified_snd_get:
  "notified (snd (get_user_session k (user_sessions b))) = notified_of k b"
  by (auto simp: notified_of_def get_user_session_def new_session_def split: option.splits)

lemma on_session_notified:
  assumes "\<And>s. notified (fst (h s)) = notified s"
  shows "notified_of t (fst (on_session k h b)) = notified_of t b"
  using assms
  by (simp add: on_session_def Let_def notified_of_put notified_snd_get)

lemma on_query_notified:
  assumes "\<And>s. notified (fst (h s)) = notified s"
  shows "notified_of t (fst (on_query e k h b)) = notified_of t b"
  using on_session_notified [OF assms] by (simp add: on_query_def)

lemma keeps_start: "notified (fst (start e c s)) = notified s"
  by (simp add: start_def Let_def)

lemma keeps_select_language: "notified (fst (select_language e c d s)) = notified s"
  by (simp add: select_language_def Let_def split: list.splits)

lemma keeps_drop_menu [simp]: "notified (drop_menu e s) = notified s"
  by (simp add: drop_menu_def split: option.splits)

lemma keeps_returning: "notified (fst (handle_returning_user_choice e c d s)) = notified s"
  by (simp add: handle_returning_user_choice_def Let_def)

lemma keeps_start_collecting: "notified (fst (start_collecting_info e c d s)) = notified s"
  by (simp add: start_collecting_info_def Let_def split: option.splits prod.splits)

lemma keeps_set_candidate [simp]: "notified (set_candidate k v s) = notified s"
  by (simp add: set_candidate_def)

lemma keeps_personal: "notified (fst (collect_personal_info e c x s)) = notified s"
  by (simp add: collect_personal_info_def Let_def)

lemma keeps_contact: "notified (fst (collect_contact_info e c x s)) = notified s"
  by (simp add: collect_contact_info_def Let_def)

lemma keeps_image: "notified (fst (collect_profile_image e c x m s)) = notified s"
  by (simp add: collect_profile_image_def image_reply_def image_failed_def Let_def
      split: media.splits)

lemma keeps_image_choice: "notified (fst (handle_profile_image_choice e c d s)) = notified s"
  by (simp add: handle_profile_image_choice_def Let_def)

lemma keeps_professional: "notified (fst (collect_professional_info e c x s)) = notified s"
  by (simp add: collect_professional_info_def Let_def)

lemma keeps_professional_choice:
  "notified (fst (handle_professional_info_choice e c d s)) = notified s"
  by (simp add: handle_professional_info_choice_def Let_def)

lemma keeps_education: "notified (fst (collect_education e c x s)) = notified s"
  by (simp add: collect_education_def Let_def)

lemma keeps_education_choice: "notified (fst (handle_education_choice e c d s)) = notified s"
  by (simp add: handle_education_choice_def Let_def)

lemma keeps_skills: "notified (fst (collect_skills e c x s)) = notified s"
  by (simp add: collect_skills_def Let_def)

lemma keeps_skills_choice: "notified (fst (handle_skills_choice e c d s)) = notified s"
  by (simp add: handle_skills_choice_def Let_def)

lemma keeps_career: "notified (fst (collect_career_objective e c x s)) = notified s"
  by (simp add: collect_career_objective_def Let_def)

lemma keeps_certifications: "notified (fst (collect_certifications e c x s)) = notified s"
  by (simp add: collect_certifications_def Let_def)

lemma keeps_certifications_choice:
  "notified (fst (handle_certifications_choice e c d s)) = notified s"
  by (simp add: handle_certifications_choice_def Let_def)

lemma keeps_projects: "notified (fst (collect_projects e c x s)) = notified s"
  by (simp add: collect_projects_def Let_def)

lemma keeps_projects_choice: "notified (fst (handle_projects_choice e c d s)) = notified s"
  by (simp add: handle_projects_choice_def Let_def)

lemma keeps_languages: "notified (fst (collect_languages e c x s)) = notified s"
  by (simp add: collect_languages_def Let_def)

lemma keeps_languages_choice: "notified (fst (handle_languages_choice e c d s)) = notified s"
  by (simp add: handle_languages_choice_def Let_def)

lemma keeps_activities: "notified (fst (collect_activities e c x s)) = notified s"
  by (simp add: collect_activities_def Let_def)

lemma keeps_edit_info:
  "d \<noteq> ''edit_no'' \<Longrightarrow> notified (fst (edit_info e c d s)) = notified s"
  by (simp add: edit_info_def Let_def)

lemmas keeps =
  keeps_start keeps_select_language keeps_returning keeps_start_collecting keeps_personal
  keeps_contact keeps_image keeps_image_choice keeps_professional keeps_professional_choice
  keeps_education keeps_education_choice keeps_skills keeps_skills_choice keeps_career
  keeps_certifications keeps_certifications_choice keeps_projects keeps_projects_choice
  keeps_languages keeps_languages_choice keeps_activities

lemma tag_section_notified:
  assumes "\<And>v s. notified (setf v s) = notified s"
  shows "notified (fst (tag_section getf setf logs uid st)) = notified (fst st)"
  using assms by (simp add: tag_section_def case_prod_beta split: option.splits)

lemma save_sections_notified: "notified (fst (save_sections uid n s)) = notified s"
  unfolding save_sections_def
  by (simp add: tag_section_notified)

lemma confirm_order_other:
  "t \<noteq> k \<Longrightarrow> notified_of t (fst (confirm_order e k c d b)) = notified_of t b"
  by (simp add: confirm_order_def Let_def case_prod_beta notified_of_put split: option.splits)

lemma confirm_order_keeps:
  "d \<noteq> ''confirm_yes'' \<Longrightarrow> d \<noteq> ''edit_no'' \<Longrightarrow>
   notified_of t (fst (confirm_order e k c d b)) = notified_of t b"
  by (simp add: confirm_order_def Let_def notified_of_put notified_snd_get)

lemma payment_reply_notified [simp]:
  "notified_of t (fst (payment_reply e st b)) = notified_of t b"
  "notified_of t (fst (payment_failed e b)) = notified_of t b"
  by (simp_all add: payment_reply_def payment_failed_def)

lemma record_evidence_notified [simp]:
  "notified_of t (fst (record_evidence e oid path b)) = notified_of t b"
  by (simp add: record_evidence_def split: option.splits)

lemma payment_screenshot_keeps:
  "notified_of t (fst (handle_payment_screenshot e k c w m b)) = notified_of t b"
  by (simp add: handle_payment_screenshot_def Let_def notified_of_put notified_snd_get
      split: option.splits media.splits prod.splits)

lemma payment_command_other:
  "t \<noteq> k \<Longrightarrow> notified_of t (fst (handle_payment_command e k c b)) = notified_of t b"
  by (simp add: handle_payment_command_def Let_def notified_of_put
      split: option.splits prod.splits)

lemma cancel_other:
  "t \<noteq> k \<Longrightarrow> notified_of t (fst (cancel e k b)) = notified_of t b"
  by (auto simp: cancel_def Let_def notified_of_def get_user_session_def update_conv'
      delete_conv' split: option.splits)

lemma help_keeps: "notified_of t (fst (help_command e k b)) = notified_of t b"
  by (simp add: help_command_def notified_of_get)

lemma error_keeps: "notified_of t (fst (error_handler e who b)) = notified_of t b"
  by (simp add: error_handler_def help_keeps split: option.splits)

lemma reply_stays_true:
  "notified_of t b = Some True \<Longrightarrow>
   notified_of t (handle_admin_reply channel fetched sent upd b) = Some True"
  using admin_reply_begin_notified [of t channel fetched upd b]
  by (cases "admin_reply_begin channel fetched upd b")
    (auto simp: handle_admin_reply_def admin_reply_resume_def mark_stays_true
      split: pending.splits)

lemma button_stays_true:
  assumes "notified_of t b = Some True"
  shows "notified_of t (fst (handle_admin_response env data b)) = Some True"
proof (cases "admin_response_begin env data b")
  case (Pair b' p)
  with assms have b': "notified_of t b' = Some True"
    using admin_response_begin_notified [of t env data b] by simp
  show ?thesis
  proof (cases p)
    case (RDone oc)
    with Pair b' assms show ?thesis by (simp add: handle_admin_response_def)
  next
    case (RAwaitSend tid chat n d e)
    with Pair b' assms show ?thesis
      by (simp add: handle_admin_response_def admin_response_resume_def mark_stays_true)
  qed
qed

lemmas on_session_keeps =
  on_session_notified [OF keeps_start] on_session_notified [OF keeps_personal]
  on_session_notified [OF keeps_contact] on_session_notified [OF keeps_image]
  on_session_notified [OF keeps_professional] on_session_notified [OF keeps_education]
  on_session_notified [OF keeps_skills] on_session_notified [OF keeps_career]
  on_session_notified [OF keeps_certifications] on_session_notified [OF keeps_projects]
  on_session_notified [OF keeps_languages] on_session_notified [OF keeps_activities]

lemmas on_query_keeps =
  on_query_notified [OF keeps_select_language] on_query_notified [OF keeps_returning]
  on_query_notified [OF keeps_start_collecting] on_query_notified [OF keeps_image_choice]
  on_query_notified [OF keeps_professional_choice] on_query_notified [OF keeps_education_choice]
  on_query_notified [OF keeps_skills_choice] on_query_notified [OF keeps_certifications_choice]
  on_query_notified [OF keeps_projects_choice] on_query_notified [OF keeps_languages_choice]

lemma edit_info_keeps:
  "d \<noteq> ''edit_no'' \<Longrightarrow> notified_of t (fst (on_query e k (edit_info e c d) b)) = notified_of t b"
  by (rule on_query_notified) (simp add: keeps_edit_info)

lemma edit_info_other:
  "t \<noteq> k \<Longrightarrow> notified_of t (fst (on_query e k (edit_info e c d) b)) = notified_of t b"
  by (simp add: on_query_def on_session_def Let_def notified_of_put)

lemma invoke_message_keeps:
  "notified_of t (fst (invoke h e (Message k c x m w) b)) = notified_of t b"
  by (cases h; cases x)
    (simp_all add: invoke_def with_text_def with_data_def on_session_keeps
      payment_screenshot_keeps)

lemma invoke_callback_keeps:
  "\<not> resets t (Call h e (Callback k c d)) \<Longrightarrow>
   notified_of t (fst (invoke h e (Callback k c d) b)) = notified_of t b"
proof (cases h)
  case H_confirm_order
  assume "\<not> resets t (Call h e (Callback k c d))"
  with H_confirm_order show ?thesis
    by (cases "k = t")
      (auto simp: invoke_def with_data_def resets_def confirm_order_keeps confirm_order_other)
next
  case H_edit_info
  assume "\<not> resets t (Call h e (Callback k c d))"
  with H_edit_info show ?thesis
    by (cases "k = t")
      (auto simp: invoke_def with_data_def resets_def edit_info_keeps edit_info_other)
qed (simp_all add: invoke_def with_text_def with_data_def on_query_keeps)

lemma invoke_command_keeps:
  "\<not> resets t (Call h e (Command k c n)) \<Longrightarrow>
   notified_of t (fst (invoke h e (Command k c n) b)) = notified_of t b"
proof (cases h)
  case H_cancel
  assume "\<not> resets t (Call h e (Command k c n))"
  with H_cancel show ?thesis
    by (auto simp: invoke_def resets_def cancel_other)
next
  case H_handle_payment_command
  assume "\<not> resets t (Call h e (Command k c n))"
  with H_handle_payment_command show ?thesis
    by (auto simp: invoke_def resets_def payment_command_other)
qed (simp_all add: invoke_def with_text_def with_data_def on_session_keeps)

lemma invoke_keeps:
  "\<not> resets t (Call h e upd) \<Longrightarrow> notified_of t (fst (invoke h e upd b)) = notified_of t b"
  by (cases upd) (simp_all add: invoke_message_keeps invoke_callback_keeps invoke_command_keeps)

lemma seen_keeps: "notified_of t (b\<lparr>user_cache := x\<rparr>) = notified_of t b"
  by (simp add: notified_of_def)

lemma apply_event_stays_true:
  "notified_of t b = Some True \<Longrightarrow> \<not> resets t ev \<Longrightarrow>
   notified_of t (apply_event ev b) = Some True"
  by (cases ev)
    (simp_all add: invoke_keeps help_keeps error_keeps poll_tick_def
      poll_sessions_stays_true reply_stays_true button_stays_true seen_keeps)

text \<open>
  C2 as stated fails.  The user's payment for order \<open>O1\<close> was rejected and the user was
  told: the flag is true.  The user sends \<open>/payment\<close>: \<open>handle_payment_command\<close> finds
  the rejected order \<open>O1\<close>, associates it again and resets the flag, so the flag is false
  and the order is the one it was.  The next tick of the poller finds the order rejected
  and the flag false: it sends the rejection a second time and sets the flag a second
  time, for the same order.
\<close>

theorem payment_command_resets_flag_of_same_order:
  "notified_of ''1001'' bot1 = Some False \<and>
   notified_of ''1001'' told = Some True \<and>
   order_id (session_of ''1001'' told) = Some ''O1'' \<and>
   notified_of ''1001''
     (apply_event (Call H_handle_payment_command calm (Command ''1001'' 1001 ''payment'')) told)
     = Some False \<and>
   order_id (session_of ''1001''
     (apply_event (Call H_handle_payment_command calm (Command ''1001'' 1001 ''payment'')) told))
     = Some ''O1'' \<and>
   notified_of ''1001''
     (run_events [Call H_handle_payment_command calm (Command ''1001'' 1001 ''payment''),
                  Tick quiet] told)
     = Some True \<and>
   outbox (run_events [Call H_handle_payment_command calm (Command ''1001'' 1001 ''payment''),
                       Tick quiet] told)
     = [Notify 1001 (PaymentRejected ''blurry receipt''),
        Notify 1001 (PaymentRejected ''blurry receipt'')]"
  by code_simp

text \<open>
  C2, amended.  For every session and every run of the bot's operations: when the
  \<open>notified\<close> flag of a user's session is true before the run and is not true after it,
  the run contains one of four operations of that user: the confirmation that creates
  and associates a new order, the \<open>/payment\<close> retry, which associates the user's most
  recent rejected order (possibly the one already associated) and resets the flag, the
  restart \<open>edit_no\<close>, which replaces the session, or \<open>/cancel\<close>, which removes it.  No
  other operation (no other wizard step, no tick of the poller, no admin reply or
  button) resets a flag that is true.
\<close>

theorem notified_reset_only_by:
  "notified_of t b = Some True \<and> notified_of t (run_events evs b) \<noteq> Some True \<longrightarrow>
     list_ex (resets t) evs"
proof (induction evs arbitrary: b)
  case Nil
  show ?case by simp
next
  case (Cons ev evs)
  show ?case
  proof (cases "resets t ev")
    case True
    then show ?thesis by simp
  next
    case False
    show ?thesis
    proof
      assume a: "notified_of t b = Some True \<and>
                 notified_of t (run_events (ev # evs) b) \<noteq> Some True"
      with False have "notified_of t (apply_event ev b) = Some True"
        by (simp add: apply_event_stays_true)
      with a Cons [of "apply_event ev b"] show "list_ex (resets t) (ev # evs)" by simp
    qed
  qed
qed

theorem notified_reset_only_by_witness:
  "notified_of ''1001'' told = Some True \<and>
   notified_of ''1001''
     (run_events [Call H_handle_payment_command calm (Command ''1001'' 1001 ''payment'')] told)
     \<noteq> Some True \<and>
   list_ex (resets ''1001'')
     [Call H_handle_payment_command calm (Command ''1001'' 1001 ''payment'')]"
proof -
  have a: "notified_of ''1001'' told = Some True" by code_simp
  have b: "notified_of ''1001''
     (run_events [Call H_handle_payment_command calm (Command ''1001'' 1001 ''payment'')] told)
     \<noteq> Some True" by code_simp
  from notified_reset_only_by
    [of "''1001''" told "[Call H_handle_payment_command calm (Command ''1001'' 1001 ''payment'')]"]
    a b
  have "list_ex (resets ''1001'')
     [Call H_handle_payment_command calm (Command ''1001'' 1001 ''payment'')]"
    by blast
  with a b show ?thesis by blast
qed

subsection \<open>The order of the wizard's states\<close>



lemma lands_prompted: "lands cs (prompted x st) = (if x then st else cs)"
  by (simp add: lands_def prompted_def)

lemma lands_simps [simp]:
  "lands cs Raise = cs" "lands cs (Return None) = cs" "lands cs (Return (Some st)) = st"
  by (simp_all add: lands_def)

lemma to_start: "lands cs (snd (start e c s)) \<in> {cs, SELECT_LANGUAGE}"
  by (simp add: start_def Let_def lands_prompted)

































































subsection \<open>Optional fields and the sentinel\<close>






lemma link_free_new [simp]: "link_free new_session"
  by (simp add: link_free_def new_session_def)





lemma free_chat [simp]: "link_free (s\<lparr>chat_id := x\<rparr>) = link_free s"
  by (simp add: link_free_def)























lemma free_restarted [simp]: "link_free (restarted s)"
  by (simp add: restarted_def link_free_def new_session_def)




lemma free_orders [simp]: "drafts_link_free (b\<lparr>orders := x\<rparr>) = drafts_link_free b"
  by (simp add: drafts_link_free_def)

lemma free_emit [simp]: "drafts_link_free (emit x b) = drafts_link_free b"
  by (simp add: drafts_link_free_def emit_def)

lemma free_cache [simp]: "drafts_link_free (b\<lparr>user_cache := x\<rparr>) = drafts_link_free b"
  by (simp add: drafts_link_free_def)




lemma free_payment_reply [simp]:
  "drafts_link_free (fst (payment_reply e st b)) = drafts_link_free b"
  "drafts_link_free (fst (payment_failed e b)) = drafts_link_free b"
  by (simp_all add: payment_reply_def payment_failed_def)

lemma free_record_evidence [simp]:
  "drafts_link_free (fst (record_evidence e oid path b)) = drafts_link_free b"
  by (simp add: record_evidence_def split: option.splits)









lemma free_response_helpers [simp]:
  "drafts_link_free (fst (response_crashed env b)) = drafts_link_free b"
  "drafts_link_free (fst (response_failed env a b)) = drafts_link_free b"
  "drafts_link_free (fst (response_info env x b)) = drafts_link_free b"
  by (simp_all add: response_crashed_def response_failed_def response_info_def)

lemma free_response_invalid [simp]:
  "drafts_link_free (fst (response_invalid env b)) = drafts_link_free b"
  by (simp add: response_invalid_def)











end
